theory Spec2Isabelle
  imports Main "HOL-Library.Sublist"
begin

section \<open>The Athena entity manager\<close>

text \<open>
  The entity manager (class \<open>EntityManager\<close>) loads the parsed test-definition files of
  a directory, filters them by kind, instantiates one entity object per selected file,
  resolves the references that suites and patterns declare by name, and keeps the result
  in one ordered collection that its query methods filter.

  The development follows the class method by method. The manager object is a record
  that every method takes and returns; a \<open>new\<close> expression draws the next object identity
  from an allocation counter kept in that record, so that two instances built from the
  same file remain different objects; a call of \<open>this.log.warn\<close> appends its message to
  the list of warnings kept in the record.
\<close>

subsection \<open>JavaScript values\<close>

text \<open>
  The configuration of a definition file is the JavaScript value the YAML parser returns;
  the value asked for in a query is any JavaScript value. Numbers are restricted to the
  integers. An array or an object is a reference: it carries the address of the object,
  and two references are the same value when their addresses are. \<open>JProto n\<close> is the
  member \<open>n\<close> of \<open>Object.prototype\<close> (the function \<open>toString\<close>, for instance), which
  every plain object inherits.
\<close>

datatype jsvalue =
    JNull
  | JBool bool
  | JNum int
  | JStr string
  | JArr nat "jsvalue list"
  | JObj nat "(string \<times> jsvalue) list"
  | JProto string

type_synonym config = "(string \<times> jsvalue) list"

text \<open>The names that a plain object inherits from \<open>Object.prototype\<close>.\<close>

definition object_prototype :: "string list" where
  "object_prototype =
     [''constructor'', ''__defineGetter__'', ''__defineSetter__'', ''hasOwnProperty'',
      ''__lookupGetter__'', ''__lookupSetter__'', ''isPrototypeOf'', ''propertyIsEnumerable'',
      ''toString'', ''valueOf'', ''__proto__'', ''toLocaleString'']"

text \<open>
  \<open>config[argument]\<close> and \<open>config.name\<close>: the own property of that name if the
  configuration holds one, else the inherited member of that name, else \<open>undefined\<close>,
  which is \<open>None\<close>.
\<close>

definition field :: "config \<Rightarrow> string \<Rightarrow> jsvalue option" where
  "field c k =
     (case map_of c k of
        Some v \<Rightarrow> Some v
      | None \<Rightarrow> if k \<in> set object_prototype then Some (JProto k) else None)"

text \<open>The truth value JavaScript gives a value in the condition of an \<open>if\<close>.\<close>

fun truthy :: "jsvalue option \<Rightarrow> bool" where
  "truthy None = False"
| "truthy (Some JNull) = False"
| "truthy (Some (JBool b)) = b"
| "truthy (Some (JNum n)) = (n \<noteq> 0)"
| "truthy (Some (JStr s)) = (s \<noteq> [])"
| "truthy (Some (JArr r xs)) = True"
| "truthy (Some (JObj r kvs)) = True"
| "truthy (Some (JProto n)) = True"

text \<open>
  The operator \<open>===\<close>. Primitive values are compared by type and value, references by
  address, inherited members by name.
\<close>

fun same_value :: "jsvalue \<Rightarrow> jsvalue \<Rightarrow> bool" where
  "same_value JNull y = (y = JNull)"
| "same_value (JBool a) y = (y = JBool a)"
| "same_value (JNum a) y = (y = JNum a)"
| "same_value (JStr a) y = (y = JStr a)"
| "same_value (JArr a xs) y = (case y of JArr b ys \<Rightarrow> a = b | _ \<Rightarrow> False)"
| "same_value (JObj a xs) y = (case y of JObj b ys \<Rightarrow> a = b | _ \<Rightarrow> False)"
| "same_value (JProto a) y = (y = JProto a)"

fun strict_eq :: "jsvalue option \<Rightarrow> jsvalue option \<Rightarrow> bool" where
  "strict_eq None y = (y = None)"
| "strict_eq (Some a) None = False"
| "strict_eq (Some a) (Some b) = same_value a b"

text \<open>\<open>Array.prototype.indexOf\<close> on an array of names: the first position, or -1.\<close>

fun indexOf :: "string list \<Rightarrow> string \<Rightarrow> int" where
  "indexOf [] x = -1"
| "indexOf (y # ys) x =
     (if y = x then 0 else (let i = indexOf ys x in if i = -1 then -1 else i + 1))"

text \<open>
  \<open>refs.indexOf(entityConfig.name)\<close>, where the name is read from the configuration:
  a name that is missing or is not a string equals no element of a list of names.
\<close>

definition indexOfProp :: "string list \<Rightarrow> jsvalue option \<Rightarrow> int" where
  "indexOfProp refs v = (case v of Some (JStr n) \<Rightarrow> indexOf refs n | _ \<Rightarrow> -1)"

subsection \<open>Test files and entities\<close>

text \<open>
  Modelled from the spec: the class \<open>TestFileEntity\<close> is not part of the sources at hand.
  A loaded file is the raw record of the specification: its name, its path and its parsed
  configuration, read through \<open>getName\<close>, \<open>getPath\<close> and \<open>getConfig\<close>.
\<close>

record testfile =
  getName :: string
  getPath :: string
  getConfig :: config

text \<open>The six entity classes; the value of \<open>entity.constructor.name\<close>.\<close>

datatype cls =
    FixtureEntity
  | FunctionalTestEntity
  | FunctionalSuiteEntity
  | PerformanceRunEntity
  | PerformancePatternEntity
  | PerformanceSuiteEntity

text \<open>
  Modelled from the spec: the entity classes are not part of the sources at hand. An
  entity holds the name, path and configuration its constructor received and an ordered
  sequence of attached entities (\<open>tests\<close> of a functional suite, \<open>runs\<close> of a performance
  pattern, \<open>patterns\<close> of a performance suite), empty at construction. \<open>oid\<close> is the
  identity of the object.
\<close>

datatype entity =
  Entity (oid: nat) (cls: cls) (name: string) (path: string) (config: config)
    (children: "entity list")

text \<open>\<open>addTest\<close>, \<open>addPerformanceRun\<close>, \<open>addPerformancePattern\<close>: push to the sequence.\<close>

fun addTest :: "entity \<Rightarrow> entity \<Rightarrow> entity" where
  "addTest t (Entity i c n p cf ch) = Entity i c n p cf (ch @ [t])"

fun addPerformanceRun :: "entity \<Rightarrow> entity \<Rightarrow> entity" where
  "addPerformanceRun r (Entity i c n p cf ch) = Entity i c n p cf (ch @ [r])"

fun addPerformancePattern :: "entity \<Rightarrow> entity \<Rightarrow> entity" where
  "addPerformancePattern pt (Entity i c n p cf ch) = Entity i c n p cf (ch @ [pt])"

text \<open>An entity without its identities, and the identities of an entity.\<close>

datatype shape = Shape cls string string config "shape list"

fun shape_of :: "entity \<Rightarrow> shape" where
  "shape_of (Entity i c n p cf ch) = Shape c n p cf (map shape_of ch)"

fun oids :: "entity \<Rightarrow> nat list" where
  "oids (Entity i c n p cf ch) = i # concat (map oids ch)"

text \<open>The file an entity was built from, read back from its three fields.\<close>

definition source :: "entity \<Rightarrow> testfile" where
  "source e = \<lparr>getName = name e, getPath = path e, getConfig = config e\<rparr>"

subsection \<open>Collaborators\<close>

text \<open>The exception of a property read or a method call on \<open>undefined\<close>.\<close>

datatype error = TypeError

text \<open>
  Modelled from the spec: the module \<open>utils\<close> and the entity classes are not part of the
  sources at hand, so the functions the manager imports from them are parameters of the
  development. The six classifier predicates are pure functions of a configuration. A
  container reads its declared reference list from its configuration: \<open>has...Refs\<close> tells
  whether it declares one, \<open>get...Refs\<close> returns the ordered list of names.
  \<open>hasNoSuiteRefs\<close> is a method of the functional test class; \<open>None\<close> stands for an
  object that has no such method, where the call throws.
  \<open>isFunctionalTestUndefined\<close> is what the call \<open>isFunctionalTest(undefined)\<close> does: it
  throws, as a predicate that reads \<open>entity.config\<close> unguarded does, or it returns a
  truth value.
\<close>

record deps =
  isFixture :: "config \<Rightarrow> bool"
  isFunctionalTest :: "config \<Rightarrow> bool"
  isFunctionalSuite :: "config \<Rightarrow> bool"
  isPerformanceSuite :: "config \<Rightarrow> bool"
  isPerformancePattern :: "config \<Rightarrow> bool"
  isPerformanceRun :: "config \<Rightarrow> bool"
  hasTestsRefs :: "config \<Rightarrow> bool"
  getTestsRefs :: "config \<Rightarrow> string list"
  hasPerfPatternRefs :: "config \<Rightarrow> bool"
  getPerfPatternsRefs :: "config \<Rightarrow> string list"
  hasPerfRunsRefs :: "config \<Rightarrow> bool"
  getPerfRunsRefs :: "config \<Rightarrow> string list"
  hasNoSuiteRefs :: "entity \<Rightarrow> bool option"
  isFunctionalTestUndefined :: "error + bool"


subsection \<open>The manager\<close>

text \<open>
  \<open>entities\<close> is the persistent list of the package \<open>list\<close>. An element of it is an
  entity or \<open>undefined\<close> (\<open>None\<close>), which is why the queries test \<open>entity &&\<close> first.
\<close>

record manager =
  testFiles :: "testfile list"
  entities :: "entity option list"
  log :: "string list"
  next_oid :: nat

definition warn :: "string \<Rightarrow> manager \<Rightarrow> manager" where
  "warn msg m = m\<lparr>log := log m @ [msg]\<rparr>"

text \<open>\<open>new C(name, path, config)\<close> for an entity class \<open>C\<close>.\<close>

definition new_entity ::
  "cls \<Rightarrow> string \<Rightarrow> string \<Rightarrow> config \<Rightarrow> manager \<Rightarrow> entity \<times> manager" where
  "new_entity c n p cf m = (Entity (next_oid m) c n p cf [], m\<lparr>next_oid := Suc (next_oid m)\<rparr>)"

text \<open>\<open>files.map(f)\<close> for a callback that instantiates: the calls run in order.\<close>

fun map_files ::
  "(testfile \<Rightarrow> manager \<Rightarrow> entity \<times> manager) \<Rightarrow> testfile list \<Rightarrow> manager
     \<Rightarrow> entity list \<times> manager" where
  "map_files f [] m = ([], m)"
| "map_files f (x # xs) m =
     (case f x m of (e, m1) \<Rightarrow>
        (case map_files f xs m1 of (es, m2) \<Rightarrow> (e # es, m2)))"

text \<open>
  \<open>this.entities.append(...values)\<close>. The collection is the persistent list of the
  package \<open>list\<close> (the tests of the constructor check its fields \<open>bits\<close>, \<open>offset\<close>,
  \<open>length\<close>, \<open>prefix\<close>, \<open>root\<close> and \<open>suffix\<close>). Its method \<open>append(value)\<close> takes one
  value and returns the list with that value at its end; further arguments are not read.
  Called with a spread array it therefore receives the first element of the array, or
  \<open>undefined\<close> when the array is empty.
\<close>

definition append_spread :: "entity option list \<Rightarrow> entity list \<Rightarrow> entity option list" where
  "append_spread l vs = l @ [case vs of [] \<Rightarrow> None | v # _ \<Rightarrow> Some v]"

text \<open>
  \<open>this.entities.insertAll(index, elements)\<close>: the list with all the elements inserted at
  the index. The third argument that \<open>_parsePerformanceTests\<close> passes is not read.
\<close>

definition insertAll ::
  "nat \<Rightarrow> entity option list \<Rightarrow> entity option list \<Rightarrow> entity option list" where
  "insertAll i els l = take i l @ els @ drop i l"

text \<open>
  \<open>_parseAllTestFiles\<close>: the files found under the tests directory, each loaded. The
  loader is outside the sources at hand; its result is the argument \<open>files\<close>.
\<close>

definition parseAllTestFiles :: "testfile list \<Rightarrow> manager \<Rightarrow> manager" where
  "parseAllTestFiles files m = m\<lparr>testFiles := files\<rparr>"

definition newFrom :: "cls \<Rightarrow> testfile \<Rightarrow> manager \<Rightarrow> entity \<times> manager" where
  "newFrom c f m = new_entity c (getName f) (getPath f) (getConfig f) m"

definition parseFixtures :: "deps \<Rightarrow> manager \<Rightarrow> manager" where
  "parseFixtures d m =
     (case map_files (newFrom FixtureEntity)
             (filter (\<lambda>f. isFixture d (getConfig f)) (testFiles m)) m of
        (onlyFixtures, m1) \<Rightarrow> m1\<lparr>entities := append_spread (entities m1) onlyFixtures\<rparr>)"

definition parsePerfRuns :: "deps \<Rightarrow> manager \<Rightarrow> manager" where
  "parsePerfRuns d m =
     (case map_files (newFrom PerformanceRunEntity)
             (filter (\<lambda>f. isPerformanceRun d (getConfig f)) (testFiles m)) m of
        (onlyPerfRuns, m1) \<Rightarrow> m1\<lparr>entities := append_spread (entities m1) onlyPerfRuns\<rparr>)"

subsection \<open>Functional suites\<close>

definition no_tests_msg :: "string \<Rightarrow> string" where
  "no_tests_msg suiteName =
     ''[Functional Entity Parsing] The '' @ [CHR 0x22] @ suiteName @ [CHR 0x22] @
     '' functional suite has no test references defined.''"

text \<open>The loop over the functional tests in \<open>_parseFunctionalSuite\<close>.\<close>

fun attachTests ::
  "string list \<Rightarrow> testfile list \<Rightarrow> entity \<Rightarrow> manager \<Rightarrow> entity \<times> manager" where
  "attachTests testRefs [] inst m = (inst, m)"
| "attachTests testRefs (functionalTest # rest) inst m =
     (if indexOf testRefs (getName functionalTest) = -1
      then attachTests testRefs rest inst m
      else (case newFrom FunctionalTestEntity functionalTest m of
              (testInst, m1) \<Rightarrow> attachTests testRefs rest (addTest testInst inst) m1))"

definition parseFunctionalSuite :: "deps \<Rightarrow> testfile \<Rightarrow> manager \<Rightarrow> entity \<times> manager" where
  "parseFunctionalSuite d suite m =
     (case newFrom FunctionalSuiteEntity suite m of
        (inst, m1) \<Rightarrow>
          if \<not> hasTestsRefs d (config inst)
          then (inst, warn (no_tests_msg (getName suite)) m1)
          else attachTests (getTestsRefs d (config inst))
                 (filter (\<lambda>f. isFunctionalTest d (getConfig f)) (testFiles m1)) inst m1)"

definition parseFunctionalTests :: "deps \<Rightarrow> manager \<Rightarrow> manager" where
  "parseFunctionalTests d m =
     (case map_files (parseFunctionalSuite d)
             (filter (\<lambda>f. isFunctionalSuite d (getConfig f)) (testFiles m)) m of
        (onlyFunctionalSuites, m1) \<Rightarrow>
          m1\<lparr>entities := append_spread (entities m1) onlyFunctionalSuites\<rparr>)"

subsection \<open>Performance suites\<close>

definition no_runs_msg :: "string \<Rightarrow> string" where
  "no_runs_msg patternName =
     ''[Performance Entity Parsing] The '' @ patternName @
     '' performance pattern has no performance runs referenced.''"

definition no_patterns_msg :: "string \<Rightarrow> string" where
  "no_patterns_msg suiteName =
     ''[Performance Entity Parsing] The '' @ suiteName @
     '' performance suite has no performance patterns referenced.''"

text \<open>
  The filter of both levels: a file of the kind whose configured name is in the list.
\<close>

definition associated :: "(config \<Rightarrow> bool) \<Rightarrow> string list \<Rightarrow> testfile \<Rightarrow> bool" where
  "associated isKind refs f =
     (isKind (getConfig f) \<and> indexOfProp refs (field (getConfig f) ''name'') \<noteq> -1)"

text \<open>The inner loop, over the runs associated with a pattern.\<close>

fun attachPerfRuns :: "testfile list \<Rightarrow> entity \<Rightarrow> manager \<Rightarrow> entity \<times> manager" where
  "attachPerfRuns [] inst m = (inst, m)"
| "attachPerfRuns (perfRun # rest) inst m =
     (case newFrom PerformanceRunEntity perfRun m of
        (runInst, m1) \<Rightarrow> attachPerfRuns rest (addPerformanceRun runInst inst) m1)"

text \<open>
  The body of the outer loop up to the attachment: the pattern instance of one
  associated pattern file, with its runs.
\<close>

definition parsePerformancePattern ::
  "deps \<Rightarrow> testfile \<Rightarrow> manager \<Rightarrow> entity \<times> manager" where
  "parsePerformancePattern d perfPattern m =
     (case newFrom PerformancePatternEntity perfPattern m of
        (inst, m1) \<Rightarrow>
          if hasPerfRunsRefs d (config inst)
          then attachPerfRuns
                 (filter (associated (isPerformanceRun d) (getPerfRunsRefs d (config inst)))
                    (testFiles m1)) inst m1
          else (inst, warn (no_runs_msg (getName perfPattern)) m1))"

text \<open>The outer loop, over the patterns associated with a suite.\<close>

fun attachPerfPatterns ::
  "deps \<Rightarrow> testfile list \<Rightarrow> entity \<Rightarrow> manager \<Rightarrow> entity \<times> manager" where
  "attachPerfPatterns d [] inst m = (inst, m)"
| "attachPerfPatterns d (perfPattern # rest) inst m =
     (case parsePerformancePattern d perfPattern m of
        (patternInst, m1) \<Rightarrow>
          attachPerfPatterns d rest (addPerformancePattern patternInst inst) m1)"

definition parsePerformanceSuite :: "deps \<Rightarrow> testfile \<Rightarrow> manager \<Rightarrow> entity \<times> manager" where
  "parsePerformanceSuite d suite m =
     (case newFrom PerformanceSuiteEntity suite m of
        (inst, m1) \<Rightarrow>
          if hasPerfPatternRefs d (config inst)
          then attachPerfPatterns d
                 (filter (associated (isPerformancePattern d) (getPerfPatternsRefs d (config inst)))
                    (testFiles m1)) inst m1
          else (inst, warn (no_patterns_msg (getName suite)) m1))"

definition parsePerformanceTests :: "deps \<Rightarrow> manager \<Rightarrow> manager" where
  "parsePerformanceTests d m =
     (case map_files (parsePerformanceSuite d)
             (filter (\<lambda>f. isPerformanceSuite d (getConfig f)) (testFiles m)) m of
        (performanceSuites, m1) \<Rightarrow>
          m1\<lparr>entities :=
               insertAll (length (entities m1)) (map Some performanceSuites) (entities m1)\<rparr>)"

subsection \<open>Construction\<close>

definition parseEntities :: "deps \<Rightarrow> testfile list \<Rightarrow> manager \<Rightarrow> manager" where
  "parseEntities d files m =
     parsePerformanceTests d (parseFunctionalTests d (parseFixtures d (parseAllTestFiles files m)))"

text \<open>The constructor: no files, the empty list, then \<open>_parseEntities\<close>.\<close>

definition EntityManager :: "deps \<Rightarrow> testfile list \<Rightarrow> manager" where
  "EntityManager d files =
     parseEntities d files \<lparr>testFiles = [], entities = [], log = [], next_oid = 0\<rparr>"

subsection \<open>Queries\<close>

text \<open>
  The callback of the three class filters, \<open>entity && entity.constructor.name === c\<close>.
  \<open>getAllFixtures\<close> returns the same sequence as a list or, on demand, as an array.
\<close>

definition is_a :: "cls \<Rightarrow> entity option \<Rightarrow> bool" where
  "is_a c slot = (case slot of None \<Rightarrow> False | Some e \<Rightarrow> cls e = c)"

definition getAllFunctionalSuites :: "manager \<Rightarrow> entity option list" where
  "getAllFunctionalSuites m = filter (is_a FunctionalSuiteEntity) (entities m)"

definition getAllPerformanceSuites :: "manager \<Rightarrow> entity option list" where
  "getAllPerformanceSuites m = filter (is_a PerformanceSuiteEntity) (entities m)"

definition getAllFixtures :: "manager \<Rightarrow> entity option list" where
  "getAllFixtures m = filter (is_a FixtureEntity) (entities m)"




definition missing_msg :: "string \<Rightarrow> string" where
  "missing_msg argument =
     ''Attempted to filter functional suites by a given argument ['' @ argument @
     ''] that does not exist!''"

text \<open>The callback of \<open>getFunctionalSuiteBy\<close>, applied to one functional suite.\<close>

definition suiteBy :: "string \<Rightarrow> jsvalue \<Rightarrow> entity \<Rightarrow> manager \<Rightarrow> bool \<times> manager" where
  "suiteBy argument v functionalSuite m =
     (if truthy (field (config functionalSuite) argument)
      then (strict_eq (field (config functionalSuite) argument) (Some v), m)
      else (False, warn (missing_msg argument) m))"

text \<open>
  \<open>L.filter\<close> with that callback, over the elements in their order. The callback reads
  \<open>functionalSuite.config\<close>, which throws on \<open>undefined\<close>.
\<close>

fun filter_suites ::
  "string \<Rightarrow> jsvalue \<Rightarrow> entity option list \<Rightarrow> manager
     \<Rightarrow> error + (entity option list \<times> manager)" where
  "filter_suites argument v [] m = Inr ([], m)"
| "filter_suites argument v (None # xs) m = Inl TypeError"
| "filter_suites argument v (Some s # xs) m =
     (case suiteBy argument v s m of
        (keep, m1) \<Rightarrow>
          (case filter_suites argument v xs m1 of
             Inl err \<Rightarrow> Inl err
           | Inr (r, m2) \<Rightarrow> Inr (if keep then Some s # r else r, m2)))"

text \<open>\<open>L.first\<close>: the first element, or \<open>undefined\<close> for the empty list.\<close>

definition first :: "entity option list \<Rightarrow> entity option" where
  "first l = (case l of [] \<Rightarrow> None | x # _ \<Rightarrow> x)"

definition getFunctionalSuiteBy ::
  "string \<Rightarrow> jsvalue \<Rightarrow> manager \<Rightarrow> error + (entity option \<times> manager)" where
  "getFunctionalSuiteBy argument v m =
     (case filter_suites argument v (getAllFunctionalSuites m) m of
        Inl err \<Rightarrow> Inl err
      | Inr (foundFunctionalSuites, m1) \<Rightarrow> Inr (first foundFunctionalSuites, m1))"

subsection \<open>Notions used to state the results\<close>

text \<open>
  The instances that a loop builds from the files \<open>rs\<close> when the allocation counter
  stands at \<open>k\<close>: one new object of the class per file, in the order of the files.
\<close>

fun instances :: "cls \<Rightarrow> nat \<Rightarrow> testfile list \<Rightarrow> entity list" where
  "instances c k [] = []"
| "instances c k (r # rs) =
     Entity k c (getName r) (getPath r) (getConfig r) [] # instances c (Suc k) rs"

text \<open>An entity of a class that carries the name, path and configuration of a file.\<close>

definition built :: "cls \<Rightarrow> testfile \<Rightarrow> shape list \<Rightarrow> shape" where
  "built c f chs = Shape c (getName f) (getPath f) (getConfig f) chs"

text \<open>The entities of a collection, without its \<open>undefined\<close> elements.\<close>

fun present :: "entity option list \<Rightarrow> entity list" where
  "present [] = []"
| "present (None # xs) = present xs"
| "present (Some e # xs) = e # present xs"

text \<open>The argument that \<open>append\<close> receives from a spread array.\<close>

definition slot_of :: "'a list \<Rightarrow> 'a option" where
  "slot_of vs = (case vs of [] \<Rightarrow> None | v # _ \<Rightarrow> Some v)"

text \<open>
  The files whose instances a container receives: the functional tests that the loop of
  \<open>_parseFunctionalSuite\<close> does not skip, the array \<open>onlyAssociatedPerfRuns\<close> of a
  pattern and the array \<open>onlyAssociatedPerfPatterns\<close> of a suite; none where the
  container declares no references.
\<close>

definition testsOf :: "deps \<Rightarrow> testfile list \<Rightarrow> testfile \<Rightarrow> testfile list" where
  "testsOf d files s =
     (if hasTestsRefs d (getConfig s)
      then filter (\<lambda>t. isFunctionalTest d (getConfig t) \<and>
                        getName t \<in> set (getTestsRefs d (getConfig s))) files
      else [])"

definition runsOf :: "deps \<Rightarrow> testfile list \<Rightarrow> testfile \<Rightarrow> testfile list" where
  "runsOf d files p =
     (if hasPerfRunsRefs d (getConfig p)
      then filter (associated (isPerformanceRun d) (getPerfRunsRefs d (getConfig p))) files
      else [])"

definition patternsOf :: "deps \<Rightarrow> testfile list \<Rightarrow> testfile \<Rightarrow> testfile list" where
  "patternsOf d files s =
     (if hasPerfPatternRefs d (getConfig s)
      then filter (associated (isPerformancePattern d) (getPerfPatternsRefs d (getConfig s))) files
      else [])"

definition patternShape :: "deps \<Rightarrow> testfile list \<Rightarrow> testfile \<Rightarrow> shape" where
  "patternShape d files p =
     built PerformancePatternEntity p
       (map (\<lambda>r. built PerformanceRunEntity r []) (runsOf d files p))"

definition suiteShape :: "deps \<Rightarrow> testfile list \<Rightarrow> testfile \<Rightarrow> shape" where
  "suiteShape d files s =
     built PerformanceSuiteEntity s (map (patternShape d files) (patternsOf d files s))"

definition funSuiteShape :: "deps \<Rightarrow> testfile list \<Rightarrow> testfile \<Rightarrow> shape" where
  "funSuiteShape d files s =
     built FunctionalSuiteEntity s
       (map (\<lambda>t. built FunctionalTestEntity t []) (testsOf d files s))"

text \<open>
  A file whose configuration holds, under \<open>name\<close>, a string that is one of the given
  names.
\<close>

definition named_in :: "string list \<Rightarrow> testfile \<Rightarrow> bool" where
  "named_in names f =
     (case field (getConfig f) ''name'' of Some (JStr n) \<Rightarrow> n \<in> set names | _ \<Rightarrow> False)"

text \<open>The phase of construction that appends entities of a class, if any does.\<close>

fun phase :: "cls \<Rightarrow> nat" where
  "phase FixtureEntity = 0"
| "phase FunctionalSuiteEntity = 1"
| "phase PerformanceSuiteEntity = 2"
| "phase _ = 3"

subsection \<open>An example directory\<close>

text \<open>
  Modelled from the spec: a concrete set of collaborators, used to run the manager on
  example files. The kind of a file is the value of the field \<open>type\<close> of its
  configuration; \<open>fixture\<close>, \<open>suite\<close> and \<open>perfRun\<close> are the values that the tests of the
  repository show, the other three values and the names of the fields that hold the
  reference lists are chosen here. A container declares references when that field holds
  a non-empty array. Only a functional test has the method \<open>hasNoSuiteRefs\<close>. The
  classifier of \<open>sample_deps\<close> answers false for \<open>undefined\<close>; the one of
  \<open>unguarded_deps\<close> throws there.
\<close>

definition type_is :: "string \<Rightarrow> config \<Rightarrow> bool" where
  "type_is t c = strict_eq (field c ''type'') (Some (JStr t))"

fun names_in :: "jsvalue list \<Rightarrow> string list" where
  "names_in [] = []"
| "names_in (JStr n # xs) = n # names_in xs"
| "names_in (_ # xs) = names_in xs"

definition has_refs :: "string \<Rightarrow> config \<Rightarrow> bool" where
  "has_refs k c = (case field c k of Some (JArr r (x # xs)) \<Rightarrow> True | _ \<Rightarrow> False)"

definition get_refs :: "string \<Rightarrow> config \<Rightarrow> string list" where
  "get_refs k c = (case field c k of Some (JArr r xs) \<Rightarrow> names_in xs | _ \<Rightarrow> [])"

definition sample_deps :: deps where
  "sample_deps =
     \<lparr>isFixture = type_is ''fixture'',
      isFunctionalTest = type_is ''test'',
      isFunctionalSuite = type_is ''suite'',
      isPerformanceSuite = type_is ''perfSuite'',
      isPerformancePattern = type_is ''perfPattern'',
      isPerformanceRun = type_is ''perfRun'',
      hasTestsRefs = has_refs ''tests'',
      getTestsRefs = get_refs ''tests'',
      hasPerfPatternRefs = has_refs ''perfPatterns'',
      getPerfPatternsRefs = get_refs ''perfPatterns'',
      hasPerfRunsRefs = has_refs ''perfRuns'',
      getPerfRunsRefs = get_refs ''perfRuns'',
      hasNoSuiteRefs = (\<lambda>e. if cls e = FunctionalTestEntity
                            then Some (\<not> truthy (field (config e) ''suiteRef''))
                            else None),
      isFunctionalTestUndefined = Inr False\<rparr>"


text \<open>A file of a kind, with a name and further fields; its path is made from the name.\<close>

definition mkfile :: "string \<Rightarrow> string \<Rightarrow> config \<Rightarrow> testfile" where
  "mkfile t n rest =
     \<lparr>getName = n, getPath = ''/tests/'' @ n @ ''.yaml'',
      getConfig = [(''name'', JStr n), (''type'', JStr t)] @ rest\<rparr>"

definition testA :: testfile where "testA = mkfile ''test'' ''A'' []"
definition testB :: testfile where "testB = mkfile ''test'' ''B'' []"
definition testC :: testfile where "testC = mkfile ''test'' ''C'' []"

definition suiteS :: testfile where
  "suiteS = mkfile ''suite'' ''S'' [(''tests'', JArr 1 [JStr ''C'', JStr ''A'', JStr ''Z''])]"

definition suiteE :: testfile where "suiteE = mkfile ''suite'' ''E'' []"

definition fixtureF :: testfile where "fixtureF = mkfile ''fixture'' ''F'' []"

definition fixtureG :: testfile where "fixtureG = mkfile ''fixture'' ''G'' []"

definition suiteBlank :: testfile where
  "suiteBlank = mkfile ''suite'' ''S0'' [(''env'', JStr [])]"

definition runR :: testfile where "runR = mkfile ''perfRun'' ''R'' []"

definition runU :: testfile where "runU = mkfile ''perfRun'' ''U'' []"

definition patternX :: testfile where
  "patternX = mkfile ''perfPattern'' ''X'' [(''perfRuns'', JArr 2 [JStr ''U''])]"

definition patternP :: testfile where
  "patternP = mkfile ''perfPattern'' ''P'' [(''perfRuns'', JArr 1 [JStr ''R'', JStr ''R9''])]"

definition patternN :: testfile where "patternN = mkfile ''perfPattern'' ''N'' []"

definition perfSuiteT :: testfile where
  "perfSuiteT = mkfile ''perfSuite'' ''T''
     [(''perfPatterns'', JArr 1 [JStr ''N'', JStr ''Q'', JStr ''P''])]"

definition perfSuiteQ :: testfile where
  "perfSuiteQ = mkfile ''perfSuite'' ''Q'' [(''perfPatterns'', JArr 1 [JStr ''Q''])]"

definition perfSuiteE :: testfile where "perfSuiteE = mkfile ''perfSuite'' ''E2'' []"

text \<open>A manager that has loaded the given files and built nothing yet.\<close>

definition loaded :: "testfile list \<Rightarrow> manager" where
  "loaded files = \<lparr>testFiles = files, entities = [], log = [], next_oid = 0\<rparr>"

text \<open>Two files that share their name with \<open>A\<close> and with \<open>R\<close>, in another folder.\<close>

definition testA2 :: testfile where
  "testA2 = \<lparr>getName = ''A'', getPath = ''/tests/more/A.yaml'',
             getConfig = [(''name'', JStr ''A''), (''type'', JStr ''test'')]\<rparr>"

definition runR2 :: testfile where
  "runR2 = \<lparr>getName = ''R'', getPath = ''/tests/more/R.yaml'',
            getConfig = [(''name'', JStr ''R''), (''type'', JStr ''perfRun'')]\<rparr>"

text \<open>
  A manager whose collection holds an \<open>undefined\<close> element, a fixture and four
  functional suites: one without the field \<open>env\<close>, two with the value \<open>prod\<close> and one
  with the number 0.
\<close>

definition suite_entity :: "nat \<Rightarrow> string \<Rightarrow> config \<Rightarrow> entity" where
  "suite_entity i n cf = Entity i FunctionalSuiteEntity n (''/tests/'' @ n @ ''.yaml'') cf []"

definition queried :: manager where
  "queried =
     \<lparr>testFiles = [],
      entities =
        [None,
         Some (Entity 0 FixtureEntity ''F'' ''/tests/F.yaml'' [(''env'', JStr ''prod'')] []),
         Some (suite_entity 1 ''S1'' [(''type'', JStr ''suite'')]),
         Some (suite_entity 2 ''S2'' [(''type'', JStr ''suite''), (''env'', JStr ''prod'')]),
         Some (suite_entity 3 ''S3'' [(''type'', JStr ''suite''), (''env'', JStr ''prod'')]),
         Some (suite_entity 4 ''S4'' [(''type'', JStr ''suite''), (''env'', JNum 0)])],
      log = [], next_oid = 5\<rparr>"

section \<open>Properties of the methods\<close>

subsection \<open>Names, identities, instances\<close>

lemma indexOf_ge: "- 1 \<le> indexOf ys x"
  by (induction ys) (auto simp: Let_def)

lemma indexOf_minus1: "(indexOf ys x = - 1) = (x \<notin> set ys)"
proof (induction ys)
  case Nil
  show ?case by simp
next
  case (Cons y ys)
  have "indexOf ys x + 1 \<noteq> - 1" using indexOf_ge [of ys x] by arith
  with Cons show ?case by (auto simp: Let_def)
qed

lemma indexOfProp_minus1:
  "(indexOfProp refs v \<noteq> - 1) = (\<exists>n. v = Some (JStr n) \<and> n \<in> set refs)"
  by (auto simp: indexOfProp_def indexOf_minus1 split: option.splits jsvalue.splits)

lemma oids_addTest: "oids (addTest t e) = oids e @ oids t"
  by (cases e) simp

lemma oids_addPerformanceRun: "oids (addPerformanceRun t e) = oids e @ oids t"
  by (cases e) simp

lemma oids_addPerformancePattern: "oids (addPerformancePattern t e) = oids e @ oids t"
  by (cases e) simp

lemma upt_join: "a \<le> b \<Longrightarrow> b \<le> c \<Longrightarrow> [a..<b] @ [b..<c] = [a..<c]"
  by (metis le_Suc_ex upt_add_eq_append)

lemma newFrom_fst: "fst (newFrom c f m) = Entity (next_oid m) c (getName f) (getPath f) (getConfig f) []"
  by (simp add: newFrom_def new_entity_def)

lemma newFrom_snd: "snd (newFrom c f m) = m\<lparr>next_oid := Suc (next_oid m)\<rparr>"
  by (simp add: newFrom_def new_entity_def)

lemma newFrom_eq: "newFrom c f m = (Entity (next_oid m) c (getName f) (getPath f) (getConfig f) [], m\<lparr>next_oid := Suc (next_oid m)\<rparr>)"
  by (simp add: newFrom_def new_entity_def)

lemma attachTests_state:
  "snd (attachTests refs ts inst m) =
     m\<lparr>next_oid := next_oid m + length (filter (\<lambda>t. getName t \<in> set refs) ts)\<rparr>"
  by (induction ts arbitrary: inst m) (simp_all add: indexOf_minus1 newFrom_eq)

lemma instances_oid: "map oid (instances c k rs) = [k ..< k + length rs]"
  by (induction rs arbitrary: k) (simp_all add: upt_rec)

lemma instances_oids: "concat (map oids (instances c k rs)) = [k ..< k + length rs]"
  by (induction rs arbitrary: k) (simp_all add: upt_rec)

lemma instances_shape: "map shape_of (instances c k rs) = map (\<lambda>r. built c r []) rs"
  by (induction rs arbitrary: k) (simp_all add: built_def)

lemma instances_source: "map source (instances c k rs) = rs"
  by (induction rs arbitrary: k) (simp_all add: source_def)

lemma instances_cls: "e \<in> set (instances c k rs) \<Longrightarrow> cls e = c"
  by (induction rs arbitrary: k) auto

lemma attachTests_entity:
  "fst (attachTests refs ts (Entity i c n p cf ch) m) =
     Entity i c n p cf (ch @ instances FunctionalTestEntity (next_oid m)
        (filter (\<lambda>t. getName t \<in> set refs) ts))"
  by (induction ts arbitrary: ch m) (simp_all add: indexOf_minus1 newFrom_eq)

lemma attachPerfRuns_state:
  "snd (attachPerfRuns rs inst m) = m\<lparr>next_oid := next_oid m + length rs\<rparr>"
  by (induction rs arbitrary: inst m) (simp_all add: newFrom_eq)

lemma attachPerfRuns_entity:
  "fst (attachPerfRuns rs (Entity i c n p cf ch) m) =
     Entity i c n p cf (ch @ instances PerformanceRunEntity (next_oid m) rs)"
  by (induction rs arbitrary: ch m) (simp_all add: newFrom_eq)

lemma pattern_testFiles [simp]: "testFiles (snd (parsePerformancePattern d p m)) = testFiles m"
  by (simp add: parsePerformancePattern_def newFrom_eq attachPerfRuns_state warn_def)

lemma pattern_entities [simp]: "entities (snd (parsePerformancePattern d p m)) = entities m"
  by (simp add: parsePerformancePattern_def newFrom_eq attachPerfRuns_state warn_def)

lemma pattern_log:
  "log (snd (parsePerformancePattern d p m)) =
     log m @ (if hasPerfRunsRefs d (getConfig p) then [] else [no_runs_msg (getName p)])"
  by (simp add: parsePerformancePattern_def newFrom_eq attachPerfRuns_state warn_def)

lemma pattern_next:
  "next_oid (snd (parsePerformancePattern d p m)) = Suc (next_oid m) + length (runsOf d (testFiles m) p)"
  by (simp add: parsePerformancePattern_def newFrom_eq attachPerfRuns_state warn_def runsOf_def)

lemma pattern_oids:
  "oids (fst (parsePerformancePattern d p m)) = [next_oid m ..< next_oid (snd (parsePerformancePattern d p m))]"
  by (simp add: parsePerformancePattern_def newFrom_eq attachPerfRuns_state attachPerfRuns_entity
      warn_def instances_oids upt_rec [of "next_oid m"])

lemma pattern_shape:
  "shape_of (fst (parsePerformancePattern d p m)) =
     built PerformancePatternEntity p (map (\<lambda>r. built PerformanceRunEntity r []) (runsOf d (testFiles m) p))"
  by (simp add: parsePerformancePattern_def newFrom_eq attachPerfRuns_entity instances_shape runsOf_def built_def)

lemma patterns_testFiles [simp]: "testFiles (snd (attachPerfPatterns d ps inst m)) = testFiles m"
  by (induction ps arbitrary: inst m) (simp_all split: prod.splits, metis pattern_testFiles snd_conv)

lemma patterns_entities [simp]: "entities (snd (attachPerfPatterns d ps inst m)) = entities m"
  by (induction ps arbitrary: inst m) (simp_all split: prod.splits, metis pattern_entities snd_conv)

lemma patterns_log:
  "log (snd (attachPerfPatterns d ps inst m)) =
     log m @ map (\<lambda>p. no_runs_msg (getName p)) (filter (\<lambda>p. \<not> hasPerfRunsRefs d (getConfig p)) ps)"
proof (induction ps arbitrary: inst m)
  case Nil
  show ?case by simp
next
  case (Cons p ps)
  obtain pi m1 where pm: "parsePerformancePattern d p m = (pi, m1)" by (cases "parsePerformancePattern d p m")
  have "log m1 = log m @ (if hasPerfRunsRefs d (getConfig p) then [] else [no_runs_msg (getName p)])"
    using pattern_log [of d p m] pm by simp
  then show ?case using pm Cons.IH [of "addPerformancePattern pi inst" m1] by simp
qed

lemma pattern_next_le: "next_oid m \<le> next_oid (snd (parsePerformancePattern d p m))"
  by (simp add: pattern_next)

lemma patterns_oids:
  "next_oid m \<le> next_oid (snd (attachPerfPatterns d ps inst m)) \<and>
   oids (fst (attachPerfPatterns d ps inst m)) =
     oids inst @ [next_oid m ..< next_oid (snd (attachPerfPatterns d ps inst m))]"
proof (induction ps arbitrary: inst m)
  case Nil
  show ?case by simp
next
  case (Cons p ps)
  obtain pi m1 where pm: "parsePerformancePattern d p m = (pi, m1)" by (cases "parsePerformancePattern d p m")
  have le: "next_oid m \<le> next_oid m1" using pattern_next_le [of m d p] pm by simp
  have po: "oids pi = [next_oid m ..< next_oid m1]" using pattern_oids [of d p m] pm by simp
  let ?r = "attachPerfPatterns d ps (addPerformancePattern pi inst) m1"
  have ih: "next_oid m1 \<le> next_oid (snd ?r) \<and>
            oids (fst ?r) = oids (addPerformancePattern pi inst) @ [next_oid m1 ..< next_oid (snd ?r)]"
    by (rule Cons.IH)
  have "oids (fst ?r) = oids inst @ [next_oid m ..< next_oid (snd ?r)]"
    using ih po le by (simp add: oids_addPerformancePattern upt_join)
  then show ?case using pm ih le by simp
qed

lemma patterns_shape:
  "fst (attachPerfPatterns d ps (Entity i c n p cf ch) m) = e \<Longrightarrow>
   oid e = i \<and> cls e = c \<and> name e = n \<and> path e = p \<and> config e = cf \<and>
   map shape_of (children e) = map shape_of ch @ map (patternShape d (testFiles m)) ps"
proof (induction ps arbitrary: ch m e)
  case Nil
  then show ?case by auto
next
  case (Cons q ps)
  obtain pi m1 where pm: "parsePerformancePattern d q m = (pi, m1)" by (cases "parsePerformancePattern d q m")
  have tf: "testFiles m1 = testFiles m" using pattern_testFiles [of d q m] pm by simp
  have sh: "shape_of pi = patternShape d (testFiles m) q"
    using pattern_shape [of d q m] pm by (simp add: patternShape_def)
  have "fst (attachPerfPatterns d ps (Entity i c n p cf (ch @ [pi])) m1) = e"
    using Cons.prems pm by simp
  from Cons.IH [OF this] show ?case by (simp add: tf sh)
qed

lemma perfSuite_testFiles [simp]: "testFiles (snd (parsePerformanceSuite d s m)) = testFiles m"
  by (simp add: parsePerformanceSuite_def newFrom_eq warn_def)

lemma perfSuite_entities [simp]: "entities (snd (parsePerformanceSuite d s m)) = entities m"
  by (simp add: parsePerformanceSuite_def newFrom_eq warn_def)

lemma perfSuite_log:
  "log (snd (parsePerformanceSuite d s m)) =
     log m @ (if hasPerfPatternRefs d (getConfig s)
              then map (\<lambda>p. no_runs_msg (getName p))
                     (filter (\<lambda>p. \<not> hasPerfRunsRefs d (getConfig p)) (patternsOf d (testFiles m) s))
              else [no_patterns_msg (getName s)])"
  by (simp add: parsePerformanceSuite_def newFrom_eq warn_def patterns_log patternsOf_def)

lemma perfSuite_oids:
  "next_oid m < next_oid (snd (parsePerformanceSuite d s m)) \<and>
   oids (fst (parsePerformanceSuite d s m)) = [next_oid m ..< next_oid (snd (parsePerformanceSuite d s m))]"
proof (cases "hasPerfPatternRefs d (getConfig s)")
  case False
  then show ?thesis by (simp add: parsePerformanceSuite_def newFrom_eq warn_def upt_rec [of "next_oid m"])
next
  case True
  let ?m1 = "m\<lparr>next_oid := Suc (next_oid m)\<rparr>"
  let ?inst = "Entity (next_oid m) PerformanceSuiteEntity (getName s) (getPath s) (getConfig s) []"
  let ?ps = "filter (associated (isPerformancePattern d) (getPerfPatternsRefs d (getConfig s))) (testFiles m)"
  have eq: "parsePerformanceSuite d s m = attachPerfPatterns d ?ps ?inst ?m1"
    using True by (simp add: parsePerformanceSuite_def newFrom_eq)
  have "next_oid ?m1 \<le> next_oid (snd (attachPerfPatterns d ?ps ?inst ?m1)) \<and>
        oids (fst (attachPerfPatterns d ?ps ?inst ?m1)) =
          oids ?inst @ [next_oid ?m1 ..< next_oid (snd (attachPerfPatterns d ?ps ?inst ?m1))]"
    by (rule patterns_oids)
  then show ?thesis unfolding eq by (simp add: upt_rec [of "next_oid m"])
qed

lemma perfSuite_shape:
  "shape_of (fst (parsePerformanceSuite d s m)) = suiteShape d (testFiles m) s"
proof (cases "hasPerfPatternRefs d (getConfig s)")
  case False
  then show ?thesis
    by (simp add: parsePerformanceSuite_def newFrom_eq suiteShape_def patternsOf_def built_def)
next
  case True
  let ?m1 = "m\<lparr>next_oid := Suc (next_oid m)\<rparr>"
  let ?ps = "filter (associated (isPerformancePattern d) (getPerfPatternsRefs d (getConfig s))) (testFiles m)"
  let ?e = "fst (attachPerfPatterns d ?ps (Entity (next_oid m) PerformanceSuiteEntity (getName s) (getPath s) (getConfig s) []) ?m1)"
  have eq: "fst (parsePerformanceSuite d s m) = ?e"
    using True by (simp add: parsePerformanceSuite_def newFrom_eq)
  have "oid ?e = next_oid m \<and> cls ?e = PerformanceSuiteEntity \<and> name ?e = getName s \<and> path ?e = getPath s \<and>
        config ?e = getConfig s \<and>
        map shape_of (children ?e) = map shape_of [] @ map (patternShape d (testFiles ?m1)) ?ps"
    by (rule patterns_shape) simp
  then show ?thesis unfolding eq using True
    by (cases ?e) (simp add: suiteShape_def patternsOf_def built_def)
qed

lemma funSuite_eq:
  "parseFunctionalSuite d s m =
     (Entity (next_oid m) FunctionalSuiteEntity (getName s) (getPath s) (getConfig s)
        (instances FunctionalTestEntity (Suc (next_oid m)) (testsOf d (testFiles m) s)),
      if hasTestsRefs d (getConfig s)
      then m\<lparr>next_oid := Suc (next_oid m) + length (testsOf d (testFiles m) s)\<rparr>
      else m\<lparr>next_oid := Suc (next_oid m), log := log m @ [no_tests_msg (getName s)]\<rparr>)"
  by (rule prod_eqI)
     (simp_all add: parseFunctionalSuite_def newFrom_eq warn_def attachTests_entity
        attachTests_state testsOf_def)

lemma funSuite_testFiles [simp]: "testFiles (snd (parseFunctionalSuite d s m)) = testFiles m"
  by (simp add: funSuite_eq)

lemma funSuite_entities [simp]: "entities (snd (parseFunctionalSuite d s m)) = entities m"
  by (simp add: funSuite_eq)

lemma funSuite_oids:
  "next_oid m < next_oid (snd (parseFunctionalSuite d s m)) \<and>
   oids (fst (parseFunctionalSuite d s m)) = [next_oid m ..< next_oid (snd (parseFunctionalSuite d s m))]"
  by (simp add: funSuite_eq instances_oids upt_rec [of "next_oid m"] testsOf_def)

lemma newFrom_oids:
  "next_oid m < next_oid (snd (newFrom c f m)) \<and>
   oids (fst (newFrom c f m)) = [next_oid m ..< next_oid (snd (newFrom c f m))]"
  by (simp add: newFrom_eq)

lemma map_files_Cons:
  "map_files F (x # xs) m =
     (fst (F x m) # fst (map_files F xs (snd (F x m))), snd (map_files F xs (snd (F x m))))"
  by (simp add: case_prod_beta)

declare map_files.simps(2) [simp del]

declare map_files_Cons [simp]

lemma map_files_testFiles:
  assumes "\<And>x m. testFiles (snd (F x m)) = testFiles m"
  shows "testFiles (snd (map_files F xs m)) = testFiles m"
proof (induction xs arbitrary: m)
  case Nil
  show ?case by simp
next
  case (Cons x xs)
  show ?case using assms [of x m] Cons.IH [of "snd (F x m)"]
    by simp
qed

lemma map_files_entities:
  assumes "\<And>x m. entities (snd (F x m)) = entities m"
  shows "entities (snd (map_files F xs m)) = entities m"
proof (induction xs arbitrary: m)
  case Nil
  show ?case by simp
next
  case (Cons x xs)
  show ?case using assms [of x m] Cons.IH [of "snd (F x m)"]
    by simp
qed

lemma map_files_length: "length (fst (map_files F xs m)) = length xs"
  by (induction xs arbitrary: m) simp_all

lemma map_files_shape:
  assumes "\<And>x m. testFiles (snd (F x m)) = testFiles m"
    and "\<And>x m. shape_of (fst (F x m)) = G (testFiles m) x"
  shows "map shape_of (fst (map_files F xs m)) = map (G (testFiles m)) xs"
proof (induction xs arbitrary: m)
  case Nil
  show ?case by simp
next
  case (Cons x xs)
  show ?case using assms(1) [of x m] assms(2) [of x m] Cons.IH [of "snd (F x m)"]
    by simp
qed

lemma map_files_oids:
  assumes "\<And>x m. next_oid m < next_oid (snd (F x m)) \<and>
                   oids (fst (F x m)) = [next_oid m ..< next_oid (snd (F x m))]"
  shows "next_oid m \<le> next_oid (snd (map_files F xs m)) \<and>
         concat (map oids (fst (map_files F xs m))) = [next_oid m ..< next_oid (snd (map_files F xs m))]"
proof (induction xs arbitrary: m)
  case Nil
  show ?case by simp
next
  case (Cons x xs)
  obtain e m1 where f: "F x m = (e, m1)" by (cases "F x m")
  have a: "next_oid m < next_oid m1" "oids e = [next_oid m ..< next_oid m1]"
    using assms [of m x] f by simp_all
  have ih: "next_oid m1 \<le> next_oid (snd (map_files F xs m1)) \<and>
     concat (map oids (fst (map_files F xs m1))) = [next_oid m1 ..< next_oid (snd (map_files F xs m1))]"
    by (rule Cons.IH)
  show ?case using f a ih by (simp add: upt_join)
qed

lemma map_files_log:
  assumes "\<And>x m. testFiles (snd (F x m)) = testFiles m"
    and "\<And>x m. log (snd (F x m)) = log m @ W (testFiles m) x"
  shows "log (snd (map_files F xs m)) = log m @ concat (map (W (testFiles m)) xs)"
proof (induction xs arbitrary: m)
  case Nil
  show ?case by simp
next
  case (Cons x xs)
  show ?case using assms(1) [of x m] assms(2) [of x m] Cons.IH [of "snd (F x m)"]
    by simp
qed

lemma newFrom_testFiles [simp]: "testFiles (snd (newFrom c f m)) = testFiles m"
  by (simp add: newFrom_eq)

lemma newFrom_entities [simp]: "entities (snd (newFrom c f m)) = entities m"
  by (simp add: newFrom_eq)

lemma newFrom_log [simp]: "log (snd (newFrom c f m)) = log m"
  by (simp add: newFrom_eq)

lemma newFrom_shape: "shape_of (fst (newFrom c f m)) = built c f []"
  by (simp add: newFrom_eq built_def)

lemma parseFixtures_testFiles [simp]: "testFiles (parseFixtures d m) = testFiles m"
  by (simp add: parseFixtures_def case_prod_beta map_files_testFiles)

lemma parseFunctionalTests_testFiles [simp]: "testFiles (parseFunctionalTests d m) = testFiles m"
  by (simp add: parseFunctionalTests_def case_prod_beta map_files_testFiles)

lemma parseFixtures_entities:
  "entities (parseFixtures d m) =
     entities m @ [slot_of (fst (map_files (newFrom FixtureEntity) (filter (\<lambda>f. isFixture d (getConfig f)) (testFiles m)) m))]"
  using map_files_entities [of "newFrom FixtureEntity" "filter (\<lambda>f. isFixture d (getConfig f)) (testFiles m)" m]
  by (simp add: parseFixtures_def append_spread_def slot_of_def case_prod_beta)

lemma parseFunctionalTests_entities:
  "entities (parseFunctionalTests d m) =
     entities m @ [slot_of (fst (map_files (parseFunctionalSuite d) (filter (\<lambda>f. isFunctionalSuite d (getConfig f)) (testFiles m)) m))]"
  using map_files_entities [of "parseFunctionalSuite d" "filter (\<lambda>f. isFunctionalSuite d (getConfig f)) (testFiles m)" m]
  by (simp add: parseFunctionalTests_def append_spread_def slot_of_def case_prod_beta)

lemma parsePerformanceTests_entities:
  "entities (parsePerformanceTests d m) =
     entities m @ map Some (fst (map_files (parsePerformanceSuite d) (filter (\<lambda>f. isPerformanceSuite d (getConfig f)) (testFiles m)) m))"
  using map_files_entities [of "parsePerformanceSuite d" "filter (\<lambda>f. isPerformanceSuite d (getConfig f)) (testFiles m)" m]
  by (simp add: parsePerformanceTests_def insertAll_def case_prod_beta)

subsection \<open>Entities and the files they were built from\<close>

lemma shape_built:
  "shape_of e = built c f chs \<Longrightarrow> source e = f \<and> cls e = c"
  by (cases e) (simp add: built_def source_def)

lemma shapes_sources:
  assumes "map shape_of es = map G fs" and "\<And>f. \<exists>chs. G f = built c f chs"
  shows "map source es = fs \<and> (\<forall>e\<in>set es. cls e = c)"
  using assms(1)
proof (induction es arbitrary: fs)
  case Nil
  then show ?case by simp
next
  case (Cons e es)
  then obtain f fs' where fs: "fs = f # fs'" by (cases fs) auto
  obtain chs where g: "G f = built c f chs" using assms(2) by blast
  have "shape_of e = built c f chs" using Cons.prems fs g by simp
  then have "source e = f \<and> cls e = c" by (rule shape_built)
  moreover have "map source es = fs' \<and> (\<forall>e\<in>set es. cls e = c)"
    using Cons.IH [of fs'] Cons.prems fs by simp
  ultimately show ?case using fs by simp
qed

lemma shape_children: "shape_of e = built c f chs \<Longrightarrow> map shape_of (children e) = chs"
  by (cases e) (simp add: built_def)

lemma config_source: "getConfig (source e) = config e"
  by (simp add: source_def)

lemma name_source: "getName (source e) = name e"
  by (simp add: source_def)

lemma sources_filter:
  "map source (filter (\<lambda>e. Q (source e)) es) = filter Q (map source es)"
  by (induction es) simp_all


lemma funSuiteShape_built: "\<exists>chs. funSuiteShape d files f = built FunctionalSuiteEntity f chs"
  unfolding funSuiteShape_def by blast

lemma suiteShape_built: "\<exists>chs. suiteShape d files f = built PerformanceSuiteEntity f chs"
  unfolding suiteShape_def by blast

lemma fixtureShape_built: "\<exists>chs. built FixtureEntity f [] = built FixtureEntity f chs"
  by blast

lemma patternShape_built: "\<exists>chs. patternShape d files f = built PerformancePatternEntity f chs"
  unfolding patternShape_def by blast

lemma funSuite_sources:
  "map source (children (fst (parseFunctionalSuite d s m))) = testsOf d (testFiles m) s"
  by (simp add: funSuite_eq instances_source)

lemma pattern_sources:
  "map source (children (fst (parsePerformancePattern d p m))) = runsOf d (testFiles m) p"
  by (simp add: parsePerformancePattern_def newFrom_eq attachPerfRuns_entity instances_source
      runsOf_def)

lemma perfSuite_sources:
  "map source (children (fst (parsePerformanceSuite d s m))) = patternsOf d (testFiles m) s"
proof -
  have "shape_of (fst (parsePerformanceSuite d s m)) =
        built PerformanceSuiteEntity s (map (patternShape d (testFiles m)) (patternsOf d (testFiles m) s))"
    by (simp add: perfSuite_shape suiteShape_def)
  then have "map shape_of (children (fst (parsePerformanceSuite d s m))) =
        map (patternShape d (testFiles m)) (patternsOf d (testFiles m) s)"
    by (rule shape_children)
  from shapes_sources [OF this patternShape_built] show ?thesis by simp
qed

lemma funSuite_children:
  "children (fst (parseFunctionalSuite d s m)) =
     instances FunctionalTestEntity (Suc (next_oid m)) (testsOf d (testFiles m) s)"
  by (simp add: funSuite_eq)

lemma pattern_children:
  "children (fst (parsePerformancePattern d p m)) =
     instances PerformanceRunEntity (Suc (next_oid m)) (runsOf d (testFiles m) p)"
  by (simp add: parsePerformancePattern_def newFrom_eq attachPerfRuns_entity runsOf_def)

lemma funSuite_children_oid:
  "map oid (children (fst (parseFunctionalSuite d s m))) =
     [Suc (next_oid m) ..< Suc (next_oid m) + length (testsOf d (testFiles m) s)]"
  by (simp only: funSuite_children instances_oid)

lemma pattern_children_oid:
  "map oid (children (fst (parsePerformancePattern d p m))) =
     [Suc (next_oid m) ..< Suc (next_oid m) + length (runsOf d (testFiles m) p)]"
  by (simp only: pattern_children instances_oid)

lemma associated_iff:
  "associated isKind refs f =
     (isKind (getConfig f) \<and> (\<exists>n. field (getConfig f) ''name'' = Some (JStr n) \<and> n \<in> set refs))"
  by (simp add: associated_def indexOfProp_minus1)

subsection \<open>The constructed collection\<close>

lemma present_append: "present (xs @ ys) = present xs @ present ys"
  by (induction xs rule: present.induct) simp_all

lemma present_map_Some: "present (map Some es) = es"
  by (induction es) simp_all

lemma present_slot: "present [slot_of xs] = take (Suc 0) xs"
  by (cases xs) (simp_all add: slot_of_def)

lemma present_filter_is_a: "present (filter (is_a c) l) = filter (\<lambda>e. cls e = c) (present l)"
  by (induction l rule: present.induct) (simp_all add: is_a_def)

lemma present_set: "(e \<in> set (present l)) = (Some e \<in> set l)"
  by (induction l rule: present.induct) auto

lemma slot_cases: "slot_of xs = None \<or> (\<exists>e\<in>set xs. slot_of xs = Some e)"
  by (cases xs) (simp_all add: slot_of_def)

lemma filter_cls:
  "\<forall>e\<in>set xs. cls e = c \<Longrightarrow> filter (\<lambda>e. cls e = c') xs = (if c = c' then xs else [])"
  by (induction xs) simp_all

lemma filter_filter_cls:
  "filter P (filter (\<lambda>e. cls e = c) xs) = filter (\<lambda>e. cls e = c \<and> P e) xs"
  by (induction xs) auto

lemma filter_is_a_none:
  "(\<forall>x\<in>set l. \<not> is_a c x) \<Longrightarrow> filter (is_a c) l = []"
  by (induction l) simp_all

lemma subseq_take1: "subseq (take (Suc 0) xs) xs"
  by (cases xs) simp_all

lemma sorted_const: "(\<forall>x\<in>set xs. f x = (c::nat)) \<Longrightarrow> sorted (map f xs)"
  by (induction xs) simp_all

lemma sorted_three:
  assumes "\<forall>x\<in>set as. f x = (0::nat)" "\<forall>x\<in>set bs. f x = 1" "\<forall>x\<in>set cs. f x = 2"
  shows "sorted (map f (as @ bs @ cs))"
proof -
  have a: "sorted (map f as)" using assms(1) by (rule sorted_const)
  have b: "sorted (map f bs)" using assms(2) by (rule sorted_const)
  have c: "sorted (map f cs)" using assms(3) by (rule sorted_const)
  show ?thesis using a b c assms by (simp add: sorted_append)
qed

lemma EntityManager_collection:
  obtains fx su ps where
    "entities (EntityManager d files) = [slot_of fx, slot_of su] @ map Some ps"
    "map shape_of fx = map (\<lambda>f. built FixtureEntity f []) (filter (\<lambda>f. isFixture d (getConfig f)) files)"
    "map shape_of su = map (funSuiteShape d files) (filter (\<lambda>f. isFunctionalSuite d (getConfig f)) files)"
    "map shape_of ps = map (suiteShape d files) (filter (\<lambda>f. isPerformanceSuite d (getConfig f)) files)"
    "distinct (concat (map oids ps))"
proof -
  let ?m0 = "parseAllTestFiles files \<lparr>testFiles = [], entities = [], log = [], next_oid = 0\<rparr>"
  let ?m1 = "parseFixtures d ?m0"
  let ?m2 = "parseFunctionalTests d ?m1"
  let ?fx = "fst (map_files (newFrom FixtureEntity) (filter (\<lambda>f. isFixture d (getConfig f)) files) ?m0)"
  let ?su = "fst (map_files (parseFunctionalSuite d) (filter (\<lambda>f. isFunctionalSuite d (getConfig f)) files) ?m1)"
  let ?ps = "fst (map_files (parsePerformanceSuite d) (filter (\<lambda>f. isPerformanceSuite d (getConfig f)) files) ?m2)"
  have t0: "testFiles ?m0 = files" by (simp add: parseAllTestFiles_def)
  have t1: "testFiles ?m1 = files" using t0 by simp
  have t2: "testFiles ?m2 = files" using t1 by simp
  have e1: "entities ?m1 = [slot_of ?fx]"
    by (simp add: parseFixtures_entities t0) (simp add: parseAllTestFiles_def)
  have e2: "entities ?m2 = [slot_of ?fx, slot_of ?su]"
    by (simp add: parseFunctionalTests_entities [of d ?m1] e1 t0 t1)
  have e3: "entities (EntityManager d files) = [slot_of ?fx, slot_of ?su] @ map Some ?ps"
    unfolding EntityManager_def parseEntities_def
    by (simp add: parsePerformanceTests_entities [of d ?m2] e2 t0 t1 t2)
  have s1: "map shape_of ?fx = map (\<lambda>f. built FixtureEntity f []) (filter (\<lambda>f. isFixture d (getConfig f)) files)"
    using map_files_shape [of "newFrom FixtureEntity" "\<lambda>fs f. built FixtureEntity f []"
        "filter (\<lambda>f. isFixture d (getConfig f)) files" ?m0]
    by (simp add: newFrom_shape t0)
  have s2: "map shape_of ?su = map (funSuiteShape d files) (filter (\<lambda>f. isFunctionalSuite d (getConfig f)) files)"
    using map_files_shape [of "parseFunctionalSuite d" "funSuiteShape d"
        "filter (\<lambda>f. isFunctionalSuite d (getConfig f)) files" ?m1]
    by (simp add: funSuite_eq funSuiteShape_def instances_shape built_def t0 t1)
  have s3: "map shape_of ?ps = map (suiteShape d files) (filter (\<lambda>f. isPerformanceSuite d (getConfig f)) files)"
    using map_files_shape [of "parsePerformanceSuite d" "suiteShape d"
        "filter (\<lambda>f. isPerformanceSuite d (getConfig f)) files" ?m2]
    by (simp add: perfSuite_shape t0 t1 t2)
  have "concat (map oids ?ps) =
      [next_oid ?m2 ..< next_oid (snd (map_files (parsePerformanceSuite d) (filter (\<lambda>f. isPerformanceSuite d (getConfig f)) files) ?m2))]"
    using map_files_oids [of "parsePerformanceSuite d" ?m2 "filter (\<lambda>f. isPerformanceSuite d (getConfig f)) files"]
      perfSuite_oids by blast
  then have d3: "distinct (concat (map oids ?ps))" by simp
  show thesis using that [OF e3 s1 s2 s3 d3] .
qed

lemma EntityManager_present:
  obtains fx su ps where
    "entities (EntityManager d files) = [slot_of fx, slot_of su] @ map Some ps"
    "present (entities (EntityManager d files)) = take (Suc 0) fx @ take (Suc 0) su @ ps"
    "map source fx = filter (\<lambda>f. isFixture d (getConfig f)) files"
    "\<forall>e\<in>set fx. cls e = FixtureEntity"
    "map source su = filter (\<lambda>f. isFunctionalSuite d (getConfig f)) files"
    "\<forall>e\<in>set su. cls e = FunctionalSuiteEntity"
    "map source ps = filter (\<lambda>f. isPerformanceSuite d (getConfig f)) files"
    "\<forall>e\<in>set ps. cls e = PerformanceSuiteEntity"
    "map shape_of ps = map (suiteShape d files) (filter (\<lambda>f. isPerformanceSuite d (getConfig f)) files)"
    "distinct (concat (map oids ps))"
proof -
  obtain fx su ps where
    e: "entities (EntityManager d files) = [slot_of fx, slot_of su] @ map Some ps" and
    s1: "map shape_of fx = map (\<lambda>f. built FixtureEntity f []) (filter (\<lambda>f. isFixture d (getConfig f)) files)" and
    s2: "map shape_of su = map (funSuiteShape d files) (filter (\<lambda>f. isFunctionalSuite d (getConfig f)) files)" and
    s3: "map shape_of ps = map (suiteShape d files) (filter (\<lambda>f. isPerformanceSuite d (getConfig f)) files)" and
    d3: "distinct (concat (map oids ps))"
    by (rule EntityManager_collection)
  have p: "present (entities (EntityManager d files)) = take (Suc 0) fx @ take (Suc 0) su @ ps"
    using present_append [of "[slot_of fx]" "[slot_of su] @ map Some ps"]
          present_append [of "[slot_of su]" "map Some ps"]
    by (simp add: e present_slot present_map_Some)
  note a1 = shapes_sources [OF s1 fixtureShape_built]
  note a2 = shapes_sources [OF s2 funSuiteShape_built]
  note a3 = shapes_sources [OF s3 suiteShape_built]
  show thesis
    by (rule that [OF e p conjunct1 [OF a1] conjunct2 [OF a1] conjunct1 [OF a2] conjunct2 [OF a2]
          conjunct1 [OF a3] conjunct2 [OF a3] s3 d3])
qed

text \<open>
  The phases of fixtures and of functional suites call \<open>append\<close>, so each contributes
  one element: its first entity, or \<open>undefined\<close>. The phase of performance suites calls
  \<open>insertAll\<close> and contributes every suite.
\<close>

lemma single_fixture_and_functional_suite:
  "length (present (getAllFixtures (EntityManager d files))) \<le> 1
   \<and> length (present (getAllFunctionalSuites (EntityManager d files))) \<le> 1
   \<and> length (entities (EntityManager d files)) =
       2 + length (filter (\<lambda>f. isPerformanceSuite d (getConfig f)) files)"
proof -
  obtain fx su ps where
    e: "entities (EntityManager d files) = [slot_of fx, slot_of su] @ map Some ps" and
    p: "present (entities (EntityManager d files)) = take (Suc 0) fx @ take (Suc 0) su @ ps" and
    f1: "map source fx = filter (\<lambda>f. isFixture d (getConfig f)) files" and
    c1: "\<forall>e\<in>set fx. cls e = FixtureEntity" and
    f2: "map source su = filter (\<lambda>f. isFunctionalSuite d (getConfig f)) files" and
    c2: "\<forall>e\<in>set su. cls e = FunctionalSuiteEntity" and
    f3: "map source ps = filter (\<lambda>f. isPerformanceSuite d (getConfig f)) files" and
    c3: "\<forall>e\<in>set ps. cls e = PerformanceSuiteEntity" and
    s3: "map shape_of ps = map (suiteShape d files) (filter (\<lambda>f. isPerformanceSuite d (getConfig f)) files)" and
    d3: "distinct (concat (map oids ps))"
    using EntityManager_present [of d files] by blast
  have t1: "\<forall>e\<in>set (take (Suc 0) fx). cls e = FixtureEntity" using c1 in_set_takeD by fast
  have t2: "\<forall>e\<in>set (take (Suc 0) su). cls e = FunctionalSuiteEntity" using c2 in_set_takeD by fast
  have g1: "present (getAllFixtures (EntityManager d files)) = take (Suc 0) fx"
    by (simp add: getAllFixtures_def present_filter_is_a p filter_cls [OF t1] filter_cls [OF t2] filter_cls [OF c3])
  have g2: "present (getAllFunctionalSuites (EntityManager d files)) = take (Suc 0) su"
    by (simp add: getAllFunctionalSuites_def present_filter_is_a p filter_cls [OF t1] filter_cls [OF t2] filter_cls [OF c3])
  have "length ps = length (filter (\<lambda>f. isPerformanceSuite d (getConfig f)) files)"
    using f3 by (metis length_map)
  then show ?thesis by (simp add: g1 g2 e)
qed

subsection \<open>The queries\<close>


lemma filter_is_a_present:
  "filter (is_a c) l = map Some (filter (\<lambda>e. cls e = c) (present l))"
  by (induction l rule: present.induct) (simp_all add: is_a_def)

lemma filter_suites_eq:
  "filter_suites a v (map Some es) m =
     Inr (map Some (filter (\<lambda>e. truthy (field (config e) a) \<and>
                                strict_eq (field (config e) a) (Some v)) es),
          m\<lparr>log := log m @ map (\<lambda>e. missing_msg a)
                              (filter (\<lambda>e. \<not> truthy (field (config e) a)) es)\<rparr>)"
  by (induction es arbitrary: m) (simp_all add: suiteBy_def warn_def)

lemma first_map_Some: "first (map Some xs) = (case xs of [] \<Rightarrow> None | x # _ \<Rightarrow> Some x)"
  by (cases xs) (simp_all add: first_def)

lemma head_in_filter:
  "(case filter P xs of [] \<Rightarrow> None | x # _ \<Rightarrow> Some x) = Some e \<Longrightarrow> P e"
proof -
  assume a: "(case filter P xs of [] \<Rightarrow> None | x # _ \<Rightarrow> Some x) = Some e"
  then obtain ys where "filter P xs = e # ys" by (cases "filter P xs") auto
  then have "e \<in> set (filter P xs)" by simp
  then show "P e" by simp
qed

lemma truthy_falsy:
  "x \<in> {Some JNull, Some (JBool False), Some (JNum 0), Some (JStr [])} \<Longrightarrow> \<not> truthy x"
  by auto

lemma field_own: "k \<notin> set object_prototype \<Longrightarrow> field c k = map_of c k"
  by (simp add: field_def split: option.splits)

lemma field_name [simp]: "field c ''name'' = map_of c ''name''"
  by (rule field_own) (simp add: object_prototype_def)

lemma field_type [simp]: "field c ''type'' = map_of c ''type''"
  by (rule field_own) (simp add: object_prototype_def)

lemma field_tests [simp]: "field c ''tests'' = map_of c ''tests''"
  by (rule field_own) (simp add: object_prototype_def)

lemma field_perfPatterns [simp]: "field c ''perfPatterns'' = map_of c ''perfPatterns''"
  by (rule field_own) (simp add: object_prototype_def)

lemma field_perfRuns [simp]: "field c ''perfRuns'' = map_of c ''perfRuns''"
  by (rule field_own) (simp add: object_prototype_def)

lemma field_env [simp]: "field c ''env'' = map_of c ''env''"
  by (rule field_own) (simp add: object_prototype_def)

lemma field_suiteRef [simp]: "field c ''suiteRef'' = map_of c ''suiteRef''"
  by (rule field_own) (simp add: object_prototype_def)

lemma field_constructor [simp]:
  "field c ''constructor'' =
     (case map_of c ''constructor'' of Some v \<Rightarrow> Some v | None \<Rightarrow> Some (JProto ''constructor''))"
  by (simp add: field_def object_prototype_def)

lemma map_of_removed: "map_of (filter (\<lambda>kv. fst kv \<noteq> a) c) a = None"
  by (induction c) auto

lemma field_removed:
  "a \<notin> set object_prototype \<Longrightarrow> field (filter (\<lambda>kv. fst kv \<noteq> a) c) a = None"
  by (simp add: field_def map_of_removed)

lemma field_falsy_own:
  "field c a \<in> {Some JNull, Some (JBool False), Some (JNum 0), Some (JStr [])} \<Longrightarrow>
   map_of c a = field c a"
  by (auto simp add: field_def split: option.splits if_splits)



text \<open>
  The suite that \<open>getFunctionalSuiteBy\<close> finds and the warnings it logs, as functions
  of the collection.
\<close>

lemma getFunctionalSuiteBy_eq:
  "getFunctionalSuiteBy a v m =
     Inr (case filter (\<lambda>e. cls e = FunctionalSuiteEntity \<and> truthy (field (config e) a) \<and>
                            strict_eq (field (config e) a) (Some v)) (present (entities m)) of
            [] \<Rightarrow> None
          | e # _ \<Rightarrow> Some e,
          m\<lparr>log := log m @ map (\<lambda>e. missing_msg a)
                   (filter (\<lambda>e. cls e = FunctionalSuiteEntity \<and> \<not> truthy (field (config e) a))
                      (present (entities m)))\<rparr>)"
  by (simp add: getFunctionalSuiteBy_def getAllFunctionalSuites_def filter_is_a_present
      filter_suites_eq first_map_Some filter_filter_cls)

lemma not_first_falsy:
  assumes "\<not> truthy (field (config s) a)"
  shows "(case filter (\<lambda>e. cls e = FunctionalSuiteEntity \<and> truthy (field (config e) a) \<and>
                          strict_eq (field (config e) a) (Some v)) l of
            [] \<Rightarrow> None
          | e # _ \<Rightarrow> Some e) \<noteq> Some s"
proof
  assume "(case filter (\<lambda>e. cls e = FunctionalSuiteEntity \<and> truthy (field (config e) a) \<and>
                          strict_eq (field (config e) a) (Some v)) l of
            [] \<Rightarrow> None
          | e # _ \<Rightarrow> Some e) = Some s"
  then have "cls s = FunctionalSuiteEntity \<and> truthy (field (config s) a) \<and>
             strict_eq (field (config s) a) (Some v)"
    by (rule head_in_filter)
  then show False using assms by simp
qed

lemma falsy_warned:
  assumes "\<not> truthy (field (config s) a)" and "Some s \<in> set l"
    and "cls s = FunctionalSuiteEntity"
  shows "missing_msg a \<in> set (logged @ map (\<lambda>e. missing_msg a)
           (filter (\<lambda>e. cls e = FunctionalSuiteEntity \<and> \<not> truthy (field (config e) a))
              (present l)))"
proof -
  have "s \<in> set (filter (\<lambda>e. cls e = FunctionalSuiteEntity \<and> \<not> truthy (field (config e) a))
                  (present l))"
    using assms by (simp add: present_set)
  then show ?thesis by force
qed

subsection \<open>Further facts for the claims\<close>

lemma map_option_slot: "map_option f (slot_of xs) = slot_of (map f xs)"
  by (cases xs) (simp_all add: slot_of_def)

lemma cls_sources:
  "\<forall>e\<in>set xs. cls e = c \<Longrightarrow> map (\<lambda>e. (cls e, source e)) xs = map (Pair c) (map source xs)"
  by (induction xs) simp_all

lemma map_Some_pairs: "map (map_option f) (map Some xs) = map (\<lambda>x. Some (f x)) xs"
  by (induction xs) simp_all

lemma associated_named:
  "associated isKind refs = (\<lambda>f. isKind (getConfig f) \<and> named_in refs f)"
  by (rule ext)
     (auto simp add: associated_def indexOfProp_def indexOf_minus1 named_in_def
        split: option.splits jsvalue.splits)




section \<open>The claims of the specification\<close>

lemmas sample_simps =
  sample_deps_def type_is_def has_refs_def get_refs_def mkfile_def loaded_def built_def

lemmas file_defs =
  testA_def testB_def testC_def suiteS_def suiteE_def fixtureF_def fixtureG_def suiteBlank_def
  runR_def runU_def patternP_def patternN_def patternX_def perfSuiteT_def perfSuiteQ_def
  perfSuiteE_def

subsection \<open>Performance runs at the top level\<close>

text \<open>
  Claim C1, as amended. Construction runs the phases of fixtures, functional suites and
  performance suites; it does not call \<open>_parsePerfRuns\<close>. So no element of a
  constructed collection is a performance run entity: runs occur only inside the
  patterns of a performance suite. The method \<open>_parsePerfRuns\<close>, called on its own on
  a manager whose files hold exactly one performance run, appends exactly one
  performance run entity, which carries the name, path and configuration of that file.
\<close>

theorem perf_runs_never_top_level:
  "filter (is_a PerformanceRunEntity) (entities (EntityManager d files)) = []
   \<and> (filter (\<lambda>f. isPerformanceRun d (getConfig f)) (testFiles m) = [r] \<longrightarrow>
        entities (parsePerfRuns d m) =
          entities m @ [Some (Entity (next_oid m) PerformanceRunEntity (getName r) (getPath r) (getConfig r) [])])"
proof -
  obtain fx su ps where
    e: "entities (EntityManager d files) = [slot_of fx, slot_of su] @ map Some ps" and
    p: "present (entities (EntityManager d files)) = take (Suc 0) fx @ take (Suc 0) su @ ps" and
    f1: "map source fx = filter (\<lambda>f. isFixture d (getConfig f)) files" and
    c1: "\<forall>e\<in>set fx. cls e = FixtureEntity" and
    f2: "map source su = filter (\<lambda>f. isFunctionalSuite d (getConfig f)) files" and
    c2: "\<forall>e\<in>set su. cls e = FunctionalSuiteEntity" and
    f3: "map source ps = filter (\<lambda>f. isPerformanceSuite d (getConfig f)) files" and
    c3: "\<forall>e\<in>set ps. cls e = PerformanceSuiteEntity" and
    s3: "map shape_of ps = map (suiteShape d files) (filter (\<lambda>f. isPerformanceSuite d (getConfig f)) files)" and
    d3: "distinct (concat (map oids ps))"
    using EntityManager_present [of d files] by blast
  have i1: "\<not> is_a PerformanceRunEntity (slot_of fx)"
    using slot_cases [of fx] c1 by (auto simp add: is_a_def)
  have i2: "\<not> is_a PerformanceRunEntity (slot_of su)"
    using slot_cases [of su] c2 by (auto simp add: is_a_def)
  have i3: "\<forall>x\<in>set (map Some ps). \<not> is_a PerformanceRunEntity x"
    using c3 by (auto simp add: is_a_def)
  have "\<forall>x\<in>set ([slot_of fx, slot_of su] @ map Some ps). \<not> is_a PerformanceRunEntity x"
    using i1 i2 i3 by auto
  then have a: "filter (is_a PerformanceRunEntity) (entities (EntityManager d files)) = []"
    unfolding e by (rule filter_is_a_none)
  have b: "filter (\<lambda>f. isPerformanceRun d (getConfig f)) (testFiles m) = [r] \<longrightarrow>
        entities (parsePerfRuns d m) =
          entities m @ [Some (Entity (next_oid m) PerformanceRunEntity (getName r) (getPath r) (getConfig r) [])]"
    by (simp add: parsePerfRuns_def newFrom_eq append_spread_def)
  show ?thesis using a b by simp
qed

theorem perf_runs_never_top_level_witness:
  "filter (is_a PerformanceRunEntity)
      (entities (EntityManager sample_deps [runR, patternP, perfSuiteT])) = []
   \<and> filter (\<lambda>f. isPerformanceRun sample_deps (getConfig f)) (testFiles (loaded [runR])) = [runR]
   \<and> entities (parsePerfRuns sample_deps (loaded [runR])) =
        [Some (Entity 0 PerformanceRunEntity ''R'' ''/tests/R.yaml''
           [(''name'', JStr ''R''), (''type'', JStr ''perfRun'')] [])]"
  using perf_runs_never_top_level [of sample_deps "[runR, patternP, perfSuiteT]" "loaded [runR]" runR]
  by (simp add: sample_simps runR_def)

text \<open>
  The claim as stated fails: a directory that holds exactly one file, classified as a
  performance run, yields a collection that holds no entity at all.
\<close>

theorem lone_perf_run_counterexample:
  "isPerformanceRun sample_deps (getConfig runR)
   \<and> present (entities (EntityManager sample_deps [runR])) = []"
  by (simp add: sample_simps runR_def EntityManager_def parseEntities_def parseAllTestFiles_def
      parseFixtures_def parseFunctionalTests_def parsePerformanceTests_def append_spread_def
      insertAll_def)

subsection \<open>Functional suites\<close>

text \<open>
  Claim C2. A functional suite that declares test references receives, in the order of
  the loaded files, one new functional test instance for every file that is classified
  as a functional test and whose name is in the declared list. The instance carries the
  name, path and configuration of its file. The order of the declared list plays no
  role, a declared name without a file adds nothing, and nothing is logged. The
  identities of the attached tests are pairwise different and were all allocated during
  the call, so every attached test is a new object.
\<close>

theorem functional_suite_attaches_declared_tests:
  assumes "hasTestsRefs d (getConfig suite)"
  shows "map shape_of (children (fst (parseFunctionalSuite d suite m))) =
           map (\<lambda>t. built FunctionalTestEntity t [])
             (filter (\<lambda>t. isFunctionalTest d (getConfig t) \<and>
                           getName t \<in> set (getTestsRefs d (getConfig suite))) (testFiles m))
         \<and> distinct (map oid (children (fst (parseFunctionalSuite d suite m))))
         \<and> set (map oid (children (fst (parseFunctionalSuite d suite m))))
             \<subseteq> {next_oid m ..< next_oid (snd (parseFunctionalSuite d suite m))}
         \<and> log (snd (parseFunctionalSuite d suite m)) = log m"
  using assms by (auto simp add: funSuite_eq instances_shape instances_oid testsOf_def)

text \<open>
  The suite \<open>S\<close> declares \<open>C\<close>, \<open>A\<close> and \<open>Z\<close>; the directory holds the tests \<open>A\<close>,
  \<open>B\<close> and \<open>C\<close>. The suite receives \<open>A\<close> and then \<open>C\<close>.
\<close>

theorem functional_suite_attaches_declared_tests_witness:
  "hasTestsRefs sample_deps (getConfig suiteS)
   \<and> getTestsRefs sample_deps (getConfig suiteS) = [''C'', ''A'', ''Z'']
   \<and> map shape_of (children (fst (parseFunctionalSuite sample_deps suiteS
          (loaded [testA, suiteS, testB, testC])))) =
        [built FunctionalTestEntity testA [], built FunctionalTestEntity testC []]
   \<and> log (snd (parseFunctionalSuite sample_deps suiteS (loaded [testA, suiteS, testB, testC]))) = []"
  using functional_suite_attaches_declared_tests
          [of sample_deps suiteS "loaded [testA, suiteS, testB, testC]"]
  by (simp add: sample_simps suiteS_def testA_def testB_def testC_def)

subsection \<open>References without a file\<close>

text \<open>
  Claim C3, as amended. At each of the three levels (suite to test, pattern to run,
  suite to pattern) the children of a container that declares references are built from
  exactly the files that match a declared name, so a declared name without a file is
  skipped; and no warning is logged for it. A functional suite and a pattern that
  declare references log nothing at all. A performance suite that declares references
  logs only the warnings of its matched patterns that declare no runs.
\<close>

theorem unresolved_references_not_logged:
  "(hasTestsRefs d (getConfig fs) \<longrightarrow>
      map source (children (fst (parseFunctionalSuite d fs m))) =
        filter (\<lambda>t. isFunctionalTest d (getConfig t) \<and>
                      getName t \<in> set (getTestsRefs d (getConfig fs))) (testFiles m) \<and>
      log (snd (parseFunctionalSuite d fs m)) = log m)
   \<and> (hasPerfRunsRefs d (getConfig pp) \<longrightarrow>
      map source (children (fst (parsePerformancePattern d pp m))) =
        filter (associated (isPerformanceRun d) (getPerfRunsRefs d (getConfig pp))) (testFiles m) \<and>
      log (snd (parsePerformancePattern d pp m)) = log m)
   \<and> (hasPerfPatternRefs d (getConfig ps) \<longrightarrow>
      map source (children (fst (parsePerformanceSuite d ps m))) =
        filter (associated (isPerformancePattern d) (getPerfPatternsRefs d (getConfig ps)))
          (testFiles m) \<and>
      log (snd (parsePerformanceSuite d ps m)) =
        log m @ map (\<lambda>p. no_runs_msg (getName p))
                  (filter (\<lambda>p. \<not> hasPerfRunsRefs d (getConfig p))
                     (filter (associated (isPerformancePattern d)
                                (getPerfPatternsRefs d (getConfig ps))) (testFiles m))))"
  by (simp add: funSuite_sources pattern_sources perfSuite_sources testsOf_def runsOf_def
      patternsOf_def funSuite_eq instances_source pattern_log perfSuite_log)

theorem unresolved_references_not_logged_witness:
  "hasTestsRefs sample_deps (getConfig suiteS)
   \<and> log (snd (parseFunctionalSuite sample_deps suiteS
        (loaded [testA, patternN, patternP, runR]))) = []
   \<and> hasPerfRunsRefs sample_deps (getConfig patternP)
   \<and> map source (children (fst (parsePerformancePattern sample_deps patternP
        (loaded [testA, patternN, patternP, runR])))) = [runR]
   \<and> log (snd (parsePerformancePattern sample_deps patternP
        (loaded [testA, patternN, patternP, runR]))) = []
   \<and> hasPerfPatternRefs sample_deps (getConfig perfSuiteT)
   \<and> map source (children (fst (parsePerformanceSuite sample_deps perfSuiteT
        (loaded [testA, patternN, patternP, runR])))) = [patternN, patternP]
   \<and> log (snd (parsePerformanceSuite sample_deps perfSuiteT
        (loaded [testA, patternN, patternP, runR]))) = [no_runs_msg ''N'']"
  using unresolved_references_not_logged
          [of sample_deps suiteS "loaded [testA, patternN, patternP, runR]" patternP perfSuiteT]
  by (simp add: sample_simps suiteS_def testA_def patternN_def patternP_def runR_def
      perfSuiteT_def associated_iff)

text \<open>
  The claim as stated fails at the level of suite and pattern: the performance suite \<open>Q\<close>
  declares the pattern \<open>Q\<close>, no file is a pattern of that name, and the log stays empty.
\<close>

theorem unmatched_pattern_reference_counterexample:
  "hasPerfPatternRefs sample_deps (getConfig perfSuiteQ)
   \<and> getPerfPatternsRefs sample_deps (getConfig perfSuiteQ) = [''Q'']
   \<and> filter (associated (isPerformancePattern sample_deps) [''Q''])
        (testFiles (loaded [perfSuiteQ, patternP, runR])) = []
   \<and> shape_of (fst (parsePerformanceSuite sample_deps perfSuiteQ (loaded [perfSuiteQ, patternP, runR])))
        = built PerformanceSuiteEntity perfSuiteQ []
   \<and> log (snd (parsePerformanceSuite sample_deps perfSuiteQ (loaded [perfSuiteQ, patternP, runR]))) = []"
  by (simp add: sample_simps perfSuiteQ_def patternP_def runR_def associated_iff
      parsePerformanceSuite_def newFrom_eq)

subsection \<open>Containers that declare no references\<close>

text \<open>
  Claim C4. A functional suite that declares no test references, a performance suite
  that declares no pattern references and a performance pattern that declares no run
  references each yield their entity with an empty sequence of children, and each adds
  exactly one warning to the log. None of the three fails.
\<close>

theorem containers_without_references:
  "(\<not> hasTestsRefs d (getConfig fs) \<longrightarrow>
      shape_of (fst (parseFunctionalSuite d fs m)) = built FunctionalSuiteEntity fs [] \<and>
      log (snd (parseFunctionalSuite d fs m)) = log m @ [no_tests_msg (getName fs)])
   \<and> (\<not> hasPerfPatternRefs d (getConfig ps) \<longrightarrow>
      shape_of (fst (parsePerformanceSuite d ps m)) = built PerformanceSuiteEntity ps [] \<and>
      log (snd (parsePerformanceSuite d ps m)) = log m @ [no_patterns_msg (getName ps)])
   \<and> (\<not> hasPerfRunsRefs d (getConfig pp) \<longrightarrow>
      shape_of (fst (parsePerformancePattern d pp m)) = built PerformancePatternEntity pp [] \<and>
      log (snd (parsePerformancePattern d pp m)) = log m @ [no_runs_msg (getName pp)])"
  by (simp add: funSuite_eq testsOf_def built_def perfSuite_shape suiteShape_def patternsOf_def
      perfSuite_log pattern_shape runsOf_def pattern_log)

theorem containers_without_references_witness:
  "\<not> hasTestsRefs sample_deps (getConfig suiteE)
   \<and> shape_of (fst (parseFunctionalSuite sample_deps suiteE (loaded [testA, suiteE]))) =
       built FunctionalSuiteEntity suiteE []
   \<and> length (log (snd (parseFunctionalSuite sample_deps suiteE (loaded [testA, suiteE])))) = 1
   \<and> \<not> hasPerfPatternRefs sample_deps (getConfig perfSuiteE)
   \<and> length (log (snd (parsePerformanceSuite sample_deps perfSuiteE
         (loaded [testA, suiteE])))) = 1
   \<and> \<not> hasPerfRunsRefs sample_deps (getConfig patternN)
   \<and> length (log (snd (parsePerformancePattern sample_deps patternN
         (loaded [testA, suiteE])))) = 1"
  using containers_without_references
          [of sample_deps suiteE "loaded [testA, suiteE]" perfSuiteE patternN]
  by (simp add: sample_simps suiteE_def perfSuiteE_def patternN_def)

subsection \<open>The order of the collection\<close>

text \<open>
  Claim C5. The collection that construction produces is, element by element: the entity
  of the first fixture file, or \<open>undefined\<close> when there is none; the entity of the first
  functional suite file, or \<open>undefined\<close> when there is none; then one entity for every
  performance suite file, in the order of the files. So the fixture entities come first,
  then the functional suite entities, then the performance suite entities, no entity of
  another class occurs, and within each class the entities follow the order in which
  their files were discovered. No declared reference list takes part in this order.
\<close>

theorem collection_phase_order:
  "map (map_option (\<lambda>e. (cls e, source e))) (entities (EntityManager d files)) =
     [slot_of (map (Pair FixtureEntity) (filter (\<lambda>f. isFixture d (getConfig f)) files)),
      slot_of (map (Pair FunctionalSuiteEntity)
                 (filter (\<lambda>f. isFunctionalSuite d (getConfig f)) files))]
     @ map (\<lambda>f. Some (PerformanceSuiteEntity, f))
         (filter (\<lambda>f. isPerformanceSuite d (getConfig f)) files)
   \<and> sorted (map (\<lambda>e. phase (cls e)) (present (entities (EntityManager d files))))
   \<and> map source (present (getAllFixtures (EntityManager d files))) =
        take 1 (filter (\<lambda>f. isFixture d (getConfig f)) files)
   \<and> map source (present (getAllFunctionalSuites (EntityManager d files))) =
        take 1 (filter (\<lambda>f. isFunctionalSuite d (getConfig f)) files)
   \<and> map source (present (getAllPerformanceSuites (EntityManager d files))) =
        filter (\<lambda>f. isPerformanceSuite d (getConfig f)) files
   \<and> present (entities (EntityManager d files)) =
        present (getAllFixtures (EntityManager d files)) @
        present (getAllFunctionalSuites (EntityManager d files)) @
        present (getAllPerformanceSuites (EntityManager d files))"
proof -
  obtain fx su ps where
    e: "entities (EntityManager d files) = [slot_of fx, slot_of su] @ map Some ps" and
    p: "present (entities (EntityManager d files)) = take (Suc 0) fx @ take (Suc 0) su @ ps" and
    f1: "map source fx = filter (\<lambda>f. isFixture d (getConfig f)) files" and
    c1: "\<forall>e\<in>set fx. cls e = FixtureEntity" and
    f2: "map source su = filter (\<lambda>f. isFunctionalSuite d (getConfig f)) files" and
    c2: "\<forall>e\<in>set su. cls e = FunctionalSuiteEntity" and
    f3: "map source ps = filter (\<lambda>f. isPerformanceSuite d (getConfig f)) files" and
    c3: "\<forall>e\<in>set ps. cls e = PerformanceSuiteEntity" and
    s3: "map shape_of ps = map (suiteShape d files) (filter (\<lambda>f. isPerformanceSuite d (getConfig f)) files)" and
    d3: "distinct (concat (map oids ps))"
    using EntityManager_present [of d files] by blast
  have t1: "\<forall>e\<in>set (take (Suc 0) fx). cls e = FixtureEntity" using c1 in_set_takeD by fast
  have t2: "\<forall>e\<in>set (take (Suc 0) su). cls e = FunctionalSuiteEntity" using c2 in_set_takeD by fast
  have g1: "present (getAllFixtures (EntityManager d files)) = take (Suc 0) fx"
    by (simp add: getAllFixtures_def present_filter_is_a p filter_cls [OF t1] filter_cls [OF t2] filter_cls [OF c3])
  have g2: "present (getAllFunctionalSuites (EntityManager d files)) = take (Suc 0) su"
    by (simp add: getAllFunctionalSuites_def present_filter_is_a p filter_cls [OF t1] filter_cls [OF t2] filter_cls [OF c3])
  have g3: "present (getAllPerformanceSuites (EntityManager d files)) = ps"
    by (simp add: getAllPerformanceSuites_def present_filter_is_a p filter_cls [OF t1] filter_cls [OF t2] filter_cls [OF c3])
  have s: "sorted (map (\<lambda>e. phase (cls e)) (take (Suc 0) fx @ take (Suc 0) su @ ps))"
    by (rule sorted_three) (simp_all add: t1 t2 c3)
  have u1: "map source (take (Suc 0) fx) = take (Suc 0) (filter (\<lambda>f. isFixture d (getConfig f)) files)"
    by (simp add: take_map [symmetric] f1)
  have u2: "map source (take (Suc 0) su) = take (Suc 0) (filter (\<lambda>f. isFunctionalSuite d (getConfig f)) files)"
    by (simp add: take_map [symmetric] f2)
  have x1: "map_option (\<lambda>e. (cls e, source e)) (slot_of fx) =
            slot_of (map (Pair FixtureEntity) (filter (\<lambda>f. isFixture d (getConfig f)) files))"
    by (simp only: map_option_slot cls_sources [OF c1] f1)
  have x2: "map_option (\<lambda>e. (cls e, source e)) (slot_of su) =
            slot_of (map (Pair FunctionalSuiteEntity) (filter (\<lambda>f. isFunctionalSuite d (getConfig f)) files))"
    by (simp only: map_option_slot cls_sources [OF c2] f2)
  have x3: "map (map_option (\<lambda>e. (cls e, source e))) (map Some ps) =
            map (\<lambda>f. Some (PerformanceSuiteEntity, f)) (filter (\<lambda>f. isPerformanceSuite d (getConfig f)) files)"
    using cls_sources [OF c3] by (simp add: map_Some_pairs f3 [symmetric] comp_def)
  have x: "map (map_option (\<lambda>e. (cls e, source e))) (entities (EntityManager d files)) =
     [slot_of (map (Pair FixtureEntity) (filter (\<lambda>f. isFixture d (getConfig f)) files)),
      slot_of (map (Pair FunctionalSuiteEntity)
                 (filter (\<lambda>f. isFunctionalSuite d (getConfig f)) files))]
     @ map (\<lambda>f. Some (PerformanceSuiteEntity, f))
         (filter (\<lambda>f. isPerformanceSuite d (getConfig f)) files)"
    unfolding e using x1 x2 x3 by simp
  show ?thesis using s u1 u2 f3 x by (simp add: g1 g2 g3 p)
qed

text \<open>
  With two fixtures, two functional suites and two performance suites the collection
  holds the first fixture, the first functional suite and both performance suites, in
  this order whatever the order of the files of different kinds. With no fixture and no
  functional suite it starts with two \<open>undefined\<close> elements.
\<close>

theorem collection_phase_order_witness:
  "map (map_option (\<lambda>e. (cls e, source e)))
      (entities (EntityManager sample_deps
         [perfSuiteT, fixtureF, suiteE, runR, suiteS, fixtureG, perfSuiteE, testA])) =
     [Some (FixtureEntity, fixtureF), Some (FunctionalSuiteEntity, suiteE),
      Some (PerformanceSuiteEntity, perfSuiteT), Some (PerformanceSuiteEntity, perfSuiteE)]
   \<and> map source (present (getAllFixtures (EntityManager sample_deps
         [perfSuiteT, fixtureF, suiteE, runR, suiteS, fixtureG, perfSuiteE, testA]))) = [fixtureF]
   \<and> map source (present (getAllFunctionalSuites (EntityManager sample_deps
         [perfSuiteT, fixtureF, suiteE, runR, suiteS, fixtureG, perfSuiteE, testA]))) = [suiteE]
   \<and> map source (present (getAllPerformanceSuites (EntityManager sample_deps
         [perfSuiteT, fixtureF, suiteE, runR, suiteS, fixtureG, perfSuiteE, testA]))) =
       [perfSuiteT, perfSuiteE]
   \<and> map (map_option (\<lambda>e. (cls e, source e)))
        (entities (EntityManager sample_deps [testA, perfSuiteE])) =
       [None, None, Some (PerformanceSuiteEntity, perfSuiteE)]"
proof -
  let ?fs = "[perfSuiteT, fixtureF, suiteE, runR, suiteS, fixtureG, perfSuiteE, testA]"
  have f1: "filter (\<lambda>f. isFixture sample_deps (getConfig f)) ?fs = [fixtureF, fixtureG]"
    by (simp add: sample_simps file_defs)
  have f2: "filter (\<lambda>f. isFunctionalSuite sample_deps (getConfig f)) ?fs = [suiteE, suiteS]"
    by (simp add: sample_simps file_defs)
  have f3: "filter (\<lambda>f. isPerformanceSuite sample_deps (getConfig f)) ?fs = [perfSuiteT, perfSuiteE]"
    by (simp add: sample_simps file_defs)
  have g1: "filter (\<lambda>f. isFixture sample_deps (getConfig f)) [testA, perfSuiteE] = []"
    by (simp add: sample_simps file_defs)
  have g2: "filter (\<lambda>f. isFunctionalSuite sample_deps (getConfig f)) [testA, perfSuiteE] = []"
    by (simp add: sample_simps file_defs)
  have g3: "filter (\<lambda>f. isPerformanceSuite sample_deps (getConfig f)) [testA, perfSuiteE] = [perfSuiteE]"
    by (simp add: sample_simps file_defs)
  show ?thesis
    using collection_phase_order [of sample_deps ?fs]
          collection_phase_order [of sample_deps "[testA, perfSuiteE]"]
    unfolding f1 f2 f3 g1 g2 g3 by (simp add: slot_of_def)
qed

subsection \<open>Looking up a functional suite\<close>

text \<open>
  Claim C6 says that \<open>getFunctionalSuiteBy\<close> returns the first functional suite whose
  named field matches the value, and that it warns about a suite on which the field is
  absent. The method decides whether the field exists by the truth value of
  \<open>config[argument]\<close>, and there it departs from the claim. A directory holds one
  functional suite whose field \<open>env\<close> is the empty string. The field exists and is
  strictly equal to the empty string, yet asking for the empty string returns
  \<open>undefined\<close> and logs that the argument does not exist. On the same suite the name
  \<open>constructor\<close> is absent from the configuration, yet asking for it logs nothing,
  because the read finds the inherited member.
\<close>

theorem getFunctionalSuiteBy_misses_empty_string:
  "EntityManager sample_deps [suiteBlank] =
     \<lparr>testFiles = [suiteBlank],
      entities = [None, Some (Entity 0 FunctionalSuiteEntity ''S0'' ''/tests/S0.yaml''
                   [(''name'', JStr ''S0''), (''type'', JStr ''suite''), (''env'', JStr [])] [])],
      log = [no_tests_msg ''S0''], next_oid = 1\<rparr>
   \<and> strict_eq (field [(''name'', JStr ''S0''), (''type'', JStr ''suite''), (''env'', JStr [])] ''env'')
        (Some (JStr []))
   \<and> getFunctionalSuiteBy ''env'' (JStr []) (EntityManager sample_deps [suiteBlank]) =
       Inr (None, (EntityManager sample_deps [suiteBlank])
                    \<lparr>log := [no_tests_msg ''S0'', missing_msg ''env'']\<rparr>)
   \<and> map_of [(''name'', JStr ''S0''), (''type'', JStr ''suite''), (''env'', JStr [])] ''constructor''
       = None
   \<and> getFunctionalSuiteBy ''constructor'' (JStr ''x'') (EntityManager sample_deps [suiteBlank]) =
       Inr (None, EntityManager sample_deps [suiteBlank])"
proof -
  have m: "EntityManager sample_deps [suiteBlank] =
     \<lparr>testFiles = [suiteBlank],
      entities = [None, Some (Entity 0 FunctionalSuiteEntity ''S0'' ''/tests/S0.yaml''
                   [(''name'', JStr ''S0''), (''type'', JStr ''suite''), (''env'', JStr [])] [])],
      log = [no_tests_msg ''S0''], next_oid = 1\<rparr>"
    by (simp add: sample_simps suiteBlank_def EntityManager_def parseEntities_def
        parseAllTestFiles_def parseFixtures_def parseFunctionalTests_def
        parsePerformanceTests_def append_spread_def insertAll_def parseFunctionalSuite_def
        newFrom_eq warn_def)
  show ?thesis unfolding m by (simp add: getFunctionalSuiteBy_eq)
qed

text \<open>
  Claim C9. A functional suite whose configuration holds the named field with one of
  the values \<open>null\<close>, \<open>false\<close>, 0 or the empty string is treated as a suite on which the
  field is missing: the callback logs the warning and does not keep it, exactly as it
  does for any suite on which the field reads \<open>undefined\<close>, and, for a name that
  \<open>Object.prototype\<close> does not define, exactly as for the same suite with the field
  removed. Such a suite is never the result, whatever the value asked for, also when
  that value is strictly equal to the value of the field.
\<close>

theorem falsy_field_is_missing_field:
  assumes "field (config s) a \<in> {Some JNull, Some (JBool False), Some (JNum 0), Some (JStr [])}"
  shows "suiteBy a v s m = (False, warn (missing_msg a) m)
     \<and> (field (config s') a = None \<longrightarrow> suiteBy a v s m = suiteBy a v s' m)
     \<and> (a \<notin> set object_prototype \<longrightarrow>
          suiteBy a v s m =
            suiteBy a v (Entity (oid s) (cls s) (name s) (path s)
                           (filter (\<lambda>kv. fst kv \<noteq> a) (config s)) (children s)) m)
     \<and> (Some s \<in> set (entities m) \<and> cls s = FunctionalSuiteEntity \<longrightarrow>
           (case getFunctionalSuiteBy a v m of
              Inl err \<Rightarrow> False
            | Inr (found, m') \<Rightarrow> found \<noteq> Some s \<and> missing_msg a \<in> set (log m')))"
proof -
  have f: "\<not> truthy (field (config s) a)" using assms by (rule truthy_falsy)
  have "(case getFunctionalSuiteBy a v m of
           Inl err \<Rightarrow> False
         | Inr (found, m') \<Rightarrow> found \<noteq> Some s \<and> missing_msg a \<in> set (log m'))"
    if "Some s \<in> set (entities m)" "cls s = FunctionalSuiteEntity"
    using not_first_falsy [OF f, of v "present (entities m)"]
          falsy_warned [OF f that(1) that(2), of "log m"]
    by (simp add: getFunctionalSuiteBy_eq)
  then show ?thesis using f by (simp add: suiteBy_def field_removed)
qed

text \<open>
  The suite \<open>S4\<close> holds the number 0 in the field \<open>env\<close>, the suite \<open>S1\<close> has no such
  field. Asking for the number 0 returns nothing and logs one warning for each.
\<close>

theorem falsy_field_is_missing_field_witness:
  "field (config (suite_entity 4 ''S4'' [(''type'', JStr ''suite''), (''env'', JNum 0)])) ''env''
     \<in> {Some JNull, Some (JBool False), Some (JNum 0), Some (JStr [])}
   \<and> Some (suite_entity 4 ''S4'' [(''type'', JStr ''suite''), (''env'', JNum 0)])
       \<in> set (entities queried)
   \<and> strict_eq (field (config (suite_entity 4 ''S4'' [(''type'', JStr ''suite''), (''env'', JNum 0)]))
        ''env'') (Some (JNum 0))
   \<and> getFunctionalSuiteBy ''env'' (JNum 0) queried =
       Inr (None, queried\<lparr>log := [missing_msg ''env'', missing_msg ''env'']\<rparr>)
   \<and> field (config (suite_entity 1 ''S1'' [(''type'', JStr ''suite'')])) ''env'' = None
   \<and> suiteBy ''env'' (JNum 0)
        (suite_entity 4 ''S4'' [(''type'', JStr ''suite''), (''env'', JNum 0)]) queried =
       suiteBy ''env'' (JNum 0) (suite_entity 1 ''S1'' [(''type'', JStr ''suite'')]) queried
   \<and> ''env'' \<notin> set object_prototype
   \<and> suiteBy ''env'' (JNum 0)
        (suite_entity 4 ''S4'' [(''type'', JStr ''suite''), (''env'', JNum 0)]) queried =
       suiteBy ''env'' (JNum 0) (suite_entity 4 ''S4'' [(''type'', JStr ''suite'')]) queried"
  using falsy_field_is_missing_field
          [of "suite_entity 4 ''S4'' [(''type'', JStr ''suite''), (''env'', JNum 0)]"
              "''env''" "JNum 0" queried "suite_entity 1 ''S1'' [(''type'', JStr ''suite'')]"]
  by (simp add: queried_def suite_entity_def getFunctionalSuiteBy_eq object_prototype_def
      suiteBy_def)

subsection \<open>Performance suites\<close>

text \<open>
  Claim C7. The performance suite entities of a constructed collection stand for the
  files classified as performance suites, one entity per file and in the order of the
  files. The patterns of a suite that declares pattern references are one pattern entity
  per file that is classified as a pattern and whose configured name is one of the
  names the suite declares, and no other; the runs of a pattern that declares run
  references are one run entity per file that is classified as a run and whose
  configured name is one of the names the pattern declares, and no other. Each entity
  carries the name, path and configuration of its file. A declared name without a file
  adds nothing, at either level, and construction has no failing path. All the objects
  of these suites, patterns and runs have pairwise different identities: each was
  instantiated on its own.
\<close>

theorem performance_suites_nested_resolution:
  "map shape_of (present (getAllPerformanceSuites (EntityManager d files))) =
     map (\<lambda>s. built PerformanceSuiteEntity s
                (map (\<lambda>p. built PerformancePatternEntity p
                             (map (\<lambda>r. built PerformanceRunEntity r [])
                                (if hasPerfRunsRefs d (getConfig p)
                                 then filter (\<lambda>r. isPerformanceRun d (getConfig r) \<and>
                                                   named_in (getPerfRunsRefs d (getConfig p)) r)
                                        files
                                 else [])))
                   (if hasPerfPatternRefs d (getConfig s)
                    then filter (\<lambda>p. isPerformancePattern d (getConfig p) \<and>
                                      named_in (getPerfPatternsRefs d (getConfig s)) p) files
                    else [])))
       (filter (\<lambda>f. isPerformanceSuite d (getConfig f)) files)
   \<and> distinct (concat (map oids (present (getAllPerformanceSuites (EntityManager d files)))))"
proof -
  obtain fx su ps where
    e: "entities (EntityManager d files) = [slot_of fx, slot_of su] @ map Some ps" and
    p: "present (entities (EntityManager d files)) = take (Suc 0) fx @ take (Suc 0) su @ ps" and
    f1: "map source fx = filter (\<lambda>f. isFixture d (getConfig f)) files" and
    c1: "\<forall>e\<in>set fx. cls e = FixtureEntity" and
    f2: "map source su = filter (\<lambda>f. isFunctionalSuite d (getConfig f)) files" and
    c2: "\<forall>e\<in>set su. cls e = FunctionalSuiteEntity" and
    f3: "map source ps = filter (\<lambda>f. isPerformanceSuite d (getConfig f)) files" and
    c3: "\<forall>e\<in>set ps. cls e = PerformanceSuiteEntity" and
    s3: "map shape_of ps = map (suiteShape d files) (filter (\<lambda>f. isPerformanceSuite d (getConfig f)) files)" and
    d3: "distinct (concat (map oids ps))"
    using EntityManager_present [of d files] by blast
  have t1: "\<forall>e\<in>set (take (Suc 0) fx). cls e = FixtureEntity" using c1 in_set_takeD by fast
  have t2: "\<forall>e\<in>set (take (Suc 0) su). cls e = FunctionalSuiteEntity" using c2 in_set_takeD by fast
  have g3: "present (getAllPerformanceSuites (EntityManager d files)) = ps"
    by (simp add: getAllPerformanceSuites_def present_filter_is_a p filter_cls [OF t1] filter_cls [OF t2] filter_cls [OF c3])
  have "suiteShape d files = (\<lambda>s. built PerformanceSuiteEntity s
                (map (\<lambda>p. built PerformancePatternEntity p
                             (map (\<lambda>r. built PerformanceRunEntity r [])
                                (if hasPerfRunsRefs d (getConfig p)
                                 then filter (\<lambda>r. isPerformanceRun d (getConfig r) \<and>
                                                   named_in (getPerfRunsRefs d (getConfig p)) r)
                                        files
                                 else [])))
                   (if hasPerfPatternRefs d (getConfig s)
                    then filter (\<lambda>p. isPerformancePattern d (getConfig p) \<and>
                                      named_in (getPerfPatternsRefs d (getConfig s)) p) files
                    else [])))"
    by (rule ext)
       (simp add: suiteShape_def patternShape_def [abs_def] patternsOf_def runsOf_def [abs_def]
          associated_named cong: if_cong)
  then show ?thesis using s3 d3 by (simp add: g3)
qed

text \<open>
  The suite \<open>T\<close> declares the patterns \<open>N\<close>, \<open>Q\<close> and \<open>P\<close>; \<open>N\<close> declares no runs,
  \<open>P\<close> declares \<open>R\<close> and \<open>R9\<close>, and no file is named \<open>Q\<close> or \<open>R9\<close>. The directory
  also holds the pattern \<open>X\<close>, which no suite declares, and the run \<open>U\<close>, which only
  \<open>X\<close> declares: neither is attached.
\<close>

theorem performance_suites_nested_resolution_witness:
  "map shape_of (present (getAllPerformanceSuites
      (EntityManager sample_deps [runU, runR, patternP, perfSuiteT, patternX, patternN]))) =
     [built PerformanceSuiteEntity perfSuiteT
        [built PerformancePatternEntity patternP [built PerformanceRunEntity runR []],
         built PerformancePatternEntity patternN []]]"
  using performance_suites_nested_resolution
          [of sample_deps "[runU, runR, patternP, perfSuiteT, patternX, patternN]"]
  by (simp add: sample_simps file_defs named_in_def)

subsection \<open>Independent functional tests\<close>



subsection \<open>Files that share a name\<close>

text \<open>
  Claim C10. Resolution does not deduplicate by name. When a functional suite declares
  a name, the tests of that name among its children stand one by one, in order, for the
  files that are classified as functional tests and have that name: as many files, as
  many instances. The identities of the children are pairwise different. The same
  holds for the runs of a pattern, where the name is the one the configuration holds.
\<close>

theorem no_deduplication_by_name:
  "(hasTestsRefs d (getConfig fs) \<and> nm \<in> set (getTestsRefs d (getConfig fs)) \<longrightarrow>
      map source (filter (\<lambda>e. name e = nm) (children (fst (parseFunctionalSuite d fs m)))) =
        filter (\<lambda>t. isFunctionalTest d (getConfig t) \<and> getName t = nm) (testFiles m) \<and>
      distinct (map oid (children (fst (parseFunctionalSuite d fs m)))))
   \<and> (hasPerfRunsRefs d (getConfig pp) \<and> nm \<in> set (getPerfRunsRefs d (getConfig pp)) \<longrightarrow>
      map source (filter (\<lambda>e. field (config e) ''name'' = Some (JStr nm))
                    (children (fst (parsePerformancePattern d pp m)))) =
        filter (\<lambda>r. isPerformanceRun d (getConfig r) \<and>
                      field (getConfig r) ''name'' = Some (JStr nm)) (testFiles m) \<and>
      distinct (map oid (children (fst (parsePerformancePattern d pp m)))))"
proof -
  have a: "map source (filter (\<lambda>e. name e = nm) (children (fst (parseFunctionalSuite d fs m)))) =
        filter (\<lambda>t. isFunctionalTest d (getConfig t) \<and> getName t = nm) (testFiles m)"
    if "hasTestsRefs d (getConfig fs)" "nm \<in> set (getTestsRefs d (getConfig fs))"
  proof -
    have "map source (filter (\<lambda>e. getName (source e) = nm) (children (fst (parseFunctionalSuite d fs m)))) =
          filter (\<lambda>t. getName t = nm) (testsOf d (testFiles m) fs)"
      using sources_filter [of "\<lambda>t. getName t = nm" "children (fst (parseFunctionalSuite d fs m))"]
      by (simp only: funSuite_sources)
    also have "\<dots> = filter (\<lambda>t. isFunctionalTest d (getConfig t) \<and> getName t = nm) (testFiles m)"
      using that by (auto simp add: testsOf_def intro: filter_cong)
    finally show ?thesis by (simp add: name_source)
  qed
  have b: "map source (filter (\<lambda>e. field (config e) ''name'' = Some (JStr nm))
                    (children (fst (parsePerformancePattern d pp m)))) =
        filter (\<lambda>r. isPerformanceRun d (getConfig r) \<and>
                      field (getConfig r) ''name'' = Some (JStr nm)) (testFiles m)"
    if "hasPerfRunsRefs d (getConfig pp)" "nm \<in> set (getPerfRunsRefs d (getConfig pp))"
  proof -
    have "map source (filter (\<lambda>e. field (getConfig (source e)) ''name'' = Some (JStr nm))
             (children (fst (parsePerformancePattern d pp m)))) =
          filter (\<lambda>r. field (getConfig r) ''name'' = Some (JStr nm)) (runsOf d (testFiles m) pp)"
      using sources_filter [of "\<lambda>r. field (getConfig r) ''name'' = Some (JStr nm)"
          "children (fst (parsePerformancePattern d pp m))"]
      by (simp only: pattern_sources)
    also have "\<dots> = filter (\<lambda>r. isPerformanceRun d (getConfig r) \<and>
                      field (getConfig r) ''name'' = Some (JStr nm)) (testFiles m)"
      using that by (auto simp add: runsOf_def associated_iff intro: filter_cong)
    finally show ?thesis by (simp add: config_source)
  qed
  show ?thesis using a b by (simp add: funSuite_children_oid pattern_children_oid)
qed

text \<open>Two test files named \<open>A\<close> and two run files named \<open>R\<close>, in different folders.\<close>

theorem no_deduplication_by_name_witness:
  "hasTestsRefs sample_deps (getConfig suiteS) \<and> ''A'' \<in> set (getTestsRefs sample_deps (getConfig suiteS))
   \<and> map source (filter (\<lambda>e. name e = ''A'')
        (children (fst (parseFunctionalSuite sample_deps suiteS
           (loaded [testA, testB, testA2, runR, runR2]))))) = [testA, testA2]
   \<and> hasPerfRunsRefs sample_deps (getConfig patternP)
   \<and> ''R'' \<in> set (getPerfRunsRefs sample_deps (getConfig patternP))
   \<and> map source (filter (\<lambda>e. field (config e) ''name'' = Some (JStr ''R''))
        (children (fst (parsePerformancePattern sample_deps patternP
           (loaded [testA, testB, testA2, runR, runR2]))))) = [runR, runR2]
   \<and> map oid (children (fst (parsePerformancePattern sample_deps patternP
           (loaded [testA, testB, testA2, runR, runR2])))) = [1, 2]"
  using no_deduplication_by_name
          [of sample_deps suiteS "''A''" "loaded [testA, testB, testA2, runR, runR2]" patternP]
        no_deduplication_by_name
          [of sample_deps suiteS "''R''" "loaded [testA, testB, testA2, runR, runR2]" patternP]
  by (simp add: sample_simps suiteS_def testA_def testB_def testA2_def runR_def runR2_def
      patternP_def pattern_children_oid runsOf_def associated_iff)

end
